theory Spec2Isabelle
  imports Complex_Main "HOL-Library.Sublist"
begin

section \<open>Data model (src/types/chat.ts)\<close>

text \<open>
  Strings are \<open>string\<close>; a character stands for one code unit of the JavaScript string.
  Time stamps (\<open>Date.now()\<close>) are integers, the temperature is a real number.
  The field \<open>id\<close> of \<open>Message\<close> and \<open>Chat\<close> is written \<open>id_msg\<close> and \<open>id_chat\<close>, the
  field \<open>content\<close> of \<open>MemoryItem\<close> is written \<open>content_mem\<close>.
\<close>

datatype Role = User | Assistant | System

record Message =
  id_msg :: string
  role :: Role
  content :: string
  timestamp :: int

record Chat =
  id_chat :: string
  title :: string
  messages :: "Message list"
  createdAt :: int
  updatedAt :: int
  pinned :: bool
  archived :: bool

text \<open>An \<open>AbortController\<close> is an object; the model names it by its allocation number.\<close>

type_synonym AbortController = nat

record ChatState =
  isLoading :: bool
  streamingContent :: string
  abortController :: "AbortController option"

text \<open>\<open>Partial<ChatState>\<close>: every field may be absent.\<close>

record ChatState_partial =
  isLoading_upd :: "bool option"
  streamingContent_upd :: "string option"
  abortController_upd :: "AbortController option option"

record MemoryItem =
  id_mem :: string
  content_mem :: string
  createdAt_mem :: int

datatype Theme = Light | Dark

record Settings =
  systemPrompt :: string
  temperature :: real
  maxTokens :: int
  streamingEnabled :: bool
  baseUrl :: string
  useMemory :: bool
  theme :: Theme

text \<open>A thrown JavaScript error, with its \<open>name\<close> and its \<open>message\<close>.\<close>

datatype js_error = JsError (err_name: string) (err_message: string)

section \<open>JavaScript values and strings\<close>

text \<open>
  What \<open>JSON.parse\<close> returns. A JavaScript expression that may be \<open>undefined\<close> has a value
  of type \<open>json option\<close>, with \<open>None\<close> for \<open>undefined\<close>. Numbers are the integers; an object
  is the list of its own properties, each name once.
\<close>

datatype json =
  JNull | JBool bool | JNum int | JStr string | JArr "json list" | JObj "(string \<times> json) list"

fun truthy :: "json option \<Rightarrow> bool" where
  "truthy None = False"
| "truthy (Some JNull) = False"
| "truthy (Some (JBool b)) = b"
| "truthy (Some (JNum n)) = (n \<noteq> 0)"
| "truthy (Some (JStr t)) = (t \<noteq> [])"
| "truthy (Some (JArr xs)) = True"
| "truthy (Some (JObj kvs)) = True"

text \<open>
  \<open>v.key\<close> for a value \<open>v\<close> that is neither \<open>null\<close> nor \<open>undefined\<close>. The names the
  code reads (\<open>choices\<close>, \<open>delta\<close>, \<open>message\<close>, \<open>content\<close>, \<open>messages\<close>) are own properties of
  objects only: on a string, an array, a number or a boolean they are \<open>undefined\<close>.
\<close>

fun get_prop :: "string \<Rightarrow> json \<Rightarrow> json option" where
  "get_prop key (JObj kvs) = map_of kvs key"
| "get_prop key v = None"

text \<open>\<open>v[0]\<close>: the first element of an array, the first character of a string, the property
  \<open>"0"\<close> of an object.\<close>

fun get_index0 :: "json \<Rightarrow> json option" where
  "get_index0 (JArr xs) = (case xs of [] \<Rightarrow> None | x # _ \<Rightarrow> Some x)"
| "get_index0 (JStr t) = (case t of [] \<Rightarrow> None | c # _ \<Rightarrow> Some (JStr [c]))"
| "get_index0 (JObj kvs) = map_of kvs ''0''"
| "get_index0 v = None"

definition TypeError :: js_error where
  "TypeError = JsError ''TypeError'' ''Cannot read properties of undefined or null''"

definition SyntaxError :: js_error where
  "SyntaxError = JsError ''SyntaxError'' ''Unexpected token in JSON''"

text \<open>Member access \<open>e.p\<close> throws a TypeError on \<open>null\<close> and \<open>undefined\<close>; the optional
  chain \<open>e?.p\<close> is \<open>undefined\<close> there.\<close>

fun member :: "json option \<Rightarrow> (json \<Rightarrow> json option) \<Rightarrow> js_error + json option" where
  "member None p = Inl TypeError"
| "member (Some JNull) p = Inl TypeError"
| "member (Some v) p = Inr (p v)"

fun optional :: "json option \<Rightarrow> (json \<Rightarrow> json option) \<Rightarrow> json option" where
  "optional None p = None"
| "optional (Some JNull) p = None"
| "optional (Some v) p = p v"

text \<open>\<open>e || ''\<close>.\<close>

definition or_empty :: "json option \<Rightarrow> json" where
  "or_empty e = (case e of Some v \<Rightarrow> if truthy (Some v) then v else JStr [] | None \<Rightarrow> JStr [])"

fun join :: "string \<Rightarrow> string list \<Rightarrow> string" where
  "join sep [] = []"
| "join sep [x] = x"
| "join sep (x # y # ys) = x @ sep @ join sep (y # ys)"

fun nat_to_string :: "nat \<Rightarrow> string" where
  "nat_to_string n =
     (if n < 10 then [char_of (48 + n)]
      else nat_to_string (n div 10) @ [char_of (48 + n mod 10)])"

declare nat_to_string.simps [simp del]

definition int_to_string :: "int \<Rightarrow> string" where
  "int_to_string i = (if i < 0 then CHR ''-'' # nat_to_string (nat (- i)) else nat_to_string (nat i))"

text \<open>The string that \<open>+=\<close> appends for a value: a string is itself, an array is its elements
  joined by commas (\<open>null\<close> printing as nothing), an object is \<open>[object Object]\<close>.\<close>

fun ToString :: "json \<Rightarrow> string" where
  "ToString JNull = ''null''"
| "ToString (JBool b) = (if b then ''true'' else ''false'')"
| "ToString (JNum n) = int_to_string n"
| "ToString (JStr t) = t"
| "ToString (JArr xs) = join '','' (map (\<lambda>x. if x = JNull then [] else ToString x) xs)"
| "ToString (JObj kvs) = ''[object Object]''"

text \<open>\<open>t.split(sep)\<close> for a separator of one character: never the empty list.\<close>

fun split :: "char \<Rightarrow> string \<Rightarrow> string list" where
  "split sep [] = [[]]"
| "split sep (c # cs) =
     (if c = sep then [] # split sep cs
      else (case split sep cs of l # ls \<Rightarrow> (c # l) # ls | [] \<Rightarrow> [[c]]))"

definition startsWith :: "string \<Rightarrow> string \<Rightarrow> bool" where
  "startsWith t p = (take (length p) t = p)"

text \<open>White space and line terminators among the characters of \<open>string\<close>: tab, line feed,
  vertical tab, form feed, carriage return, space, no-break space.\<close>

definition is_space :: "char \<Rightarrow> bool" where
  "is_space c = (of_char c \<in> {9, 10, 11, 12, 13, 32, 160 :: nat})"

definition trim :: "string \<Rightarrow> string" where
  "trim t = rev (dropWhile is_space (rev (dropWhile is_space t)))"

text \<open>\<open>xs.pop()\<close>: the last element (\<open>undefined\<close> on the empty array) and the array left.\<close>

definition pop :: "'a list \<Rightarrow> 'a option \<times> 'a list" where
  "pop xs = (if xs = [] then (None, []) else (Some (last xs), butlast xs))"

subsection \<open>A parser for the documents of the examples\<close>

text \<open>
  The theorems below hold for every function in the place of \<open>JSON.parse\<close>. The
  examples are stated on concrete texts and need a concrete parser: \<open>JSON_parse\<close> reads
  JSON values built from objects, arrays, strings with the two-character escapes,
  integers, \<open>true\<close>, \<open>false\<close> and \<open>null\<close>, with white space between the tokens, and is
  \<open>None\<close> on every other text (numbers with a fraction or an exponent and the escapes
  with a code point are not read). In an object a repeated name keeps its place and takes
  the later value. The first argument of the recursive functions bounds the number of
  nested calls; \<open>JSON_parse\<close> starts them with the length of the text plus one.
\<close>

definition is_json_ws :: "char \<Rightarrow> bool" where
  "is_json_ws c = (of_char c \<in> {9, 10, 13, 32 :: nat})"

definition skip_ws :: "string \<Rightarrow> string" where
  "skip_ws t = dropWhile is_json_ws t"

definition is_digit :: "char \<Rightarrow> bool" where
  "is_digit c = (48 \<le> (of_char c :: nat) \<and> (of_char c :: nat) \<le> 57)"

definition digits_value :: "string \<Rightarrow> nat" where
  "digits_value ds = foldl (\<lambda>n d. 10 * n + (of_char d - 48)) 0 ds"

definition parse_number :: "string \<Rightarrow> (json \<times> string) option" where
  "parse_number t =
     (let (neg, r) = (case t of c # r \<Rightarrow> if c = CHR ''-'' then (True, r) else (False, t)
                      | [] \<Rightarrow> (False, []));
          ds = takeWhile is_digit r;
          rest = dropWhile is_digit r
      in if ds = [] \<or> (length ds > 1 \<and> hd ds = CHR ''0'')
            \<or> (rest \<noteq> [] \<and> hd rest \<in> set ''.eE'')
         then None
         else Some (JNum (if neg then - int (digits_value ds) else int (digits_value ds)), rest))"

definition unescape :: "char \<Rightarrow> char option" where
  "unescape e =
     (if e = CHR 0x22 \<or> e = CHR 0x5C \<or> e = CHR ''/'' then Some e
      else if e = CHR ''b'' then Some (CHR 0x08)
      else if e = CHR ''f'' then Some (CHR 0x0C)
      else if e = CHR ''n'' then Some (CHR 0x0A)
      else if e = CHR ''r'' then Some (CHR 0x0D)
      else if e = CHR ''t'' then Some (CHR 0x09)
      else None)"

text \<open>The characters of a string literal after its opening quote, up to the closing one.\<close>

fun parse_chars :: "string \<Rightarrow> string \<Rightarrow> (string \<times> string) option" where
  "parse_chars acc [] = None"
| "parse_chars acc [c] = (if c = CHR 0x22 then Some (rev acc, []) else None)"
| "parse_chars acc (c # e # cs) =
     (if c = CHR 0x22 then Some (rev acc, e # cs)
      else if c = CHR 0x5C
           then (case unescape e of None \<Rightarrow> None | Some d \<Rightarrow> parse_chars (d # acc) cs)
      else if (of_char c :: nat) < 32 then None
      else parse_chars (c # acc) (e # cs))"

fun obj_set :: "(string \<times> json) list \<Rightarrow> string \<Rightarrow> json \<Rightarrow> (string \<times> json) list" where
  "obj_set [] k v = [(k, v)]"
| "obj_set ((k', v') # kvs) k v =
     (if k' = k then (k, v) # kvs else (k', v') # obj_set kvs k v)"

fun parse_value :: "nat \<Rightarrow> string \<Rightarrow> (json \<times> string) option"
  and parse_elements :: "nat \<Rightarrow> json list \<Rightarrow> string \<Rightarrow> (json \<times> string) option"
  and parse_members :: "nat \<Rightarrow> (string \<times> json) list \<Rightarrow> string \<Rightarrow> (json \<times> string) option"
where
  "parse_value 0 t = None"
| "parse_value (Suc n) t =
     (case skip_ws t of
        [] \<Rightarrow> None
      | c # r \<Rightarrow>
          if c = CHR ''{''
          then (case skip_ws r of
                  [] \<Rightarrow> None
                | d # r' \<Rightarrow> if d = CHR ''}'' then Some (JObj [], r') else parse_members n [] r)
          else if c = CHR ''[''
          then (case skip_ws r of
                  [] \<Rightarrow> None
                | d # r' \<Rightarrow> if d = CHR '']'' then Some (JArr [], r') else parse_elements n [] r)
          else if c = CHR 0x22
          then (case parse_chars [] r of None \<Rightarrow> None | Some (str, r') \<Rightarrow> Some (JStr str, r'))
          else if startsWith (c # r) ''true'' then Some (JBool True, drop 4 (c # r))
          else if startsWith (c # r) ''false'' then Some (JBool False, drop 5 (c # r))
          else if startsWith (c # r) ''null'' then Some (JNull, drop 4 (c # r))
          else parse_number (c # r))"
| "parse_elements 0 acc t = None"
| "parse_elements (Suc n) acc t =
     (case parse_value n t of
        None \<Rightarrow> None
      | Some (v, r) \<Rightarrow>
          (case skip_ws r of
             [] \<Rightarrow> None
           | d # r' \<Rightarrow>
               if d = CHR '','' then parse_elements n (acc @ [v]) r'
               else if d = CHR '']'' then Some (JArr (acc @ [v]), r')
               else None))"
| "parse_members 0 acc t = None"
| "parse_members (Suc n) acc t =
     (case skip_ws t of
        [] \<Rightarrow> None
      | q # r \<Rightarrow>
          if q \<noteq> CHR 0x22 then None
          else (case parse_chars [] r of
                  None \<Rightarrow> None
                | Some (k, r1) \<Rightarrow>
                    (case skip_ws r1 of
                       [] \<Rightarrow> None
                     | colon # r2 \<Rightarrow>
                         if colon \<noteq> CHR '':'' then None
                         else (case parse_value n r2 of
                                 None \<Rightarrow> None
                               | Some (v, r3) \<Rightarrow>
                                   (case skip_ws r3 of
                                      [] \<Rightarrow> None
                                    | d # r4 \<Rightarrow>
                                        if d = CHR '','' then parse_members n (obj_set acc k v) r4
                                        else if d = CHR ''}'' then Some (JObj (obj_set acc k v), r4)
                                        else None)))))"

definition JSON_parse :: "string \<Rightarrow> json option" where
  "JSON_parse t =
     (case parse_value (Suc (length t)) t of
        None \<Rightarrow> None
      | Some (v, r) \<Rightarrow> if skip_ws r = [] then Some v else None)"

section \<open>Completion client (src/lib/api.ts)\<close>

text \<open>
  \<open>JSON.parse\<close> is a parameter \<open>parse\<close> of the functions below, \<open>None\<close> when it throws. The
  network is a parameter too: \<open>fetch\<close> maps the request to the promise's outcome, a rejection
  or a \<open>Response\<close>. The body of a response is the list of chunks its reader returns, already
  decoded by the \<open>TextDecoder\<close>, and how reading ends: \<open>None\<close> when the reader reports
  \<open>done\<close>, \<open>Some e\<close> when \<open>read()\<close> rejects with \<open>e\<close> after the chunks (an abort, a broken
  connection). \<open>response.body\<close> may be \<open>null\<close>.
\<close>

type_synonym body_stream = "string list \<times> js_error option"

record Response =
  ok :: bool
  status :: nat
  body :: "body_stream option"

record completion_request =
  url :: string
  model :: string
  messages_req :: "(string \<times> string) list"
  temperature_req :: real
  max_tokens :: int
  stream :: bool
  signal :: "AbortController option"

type_synonym fetch = "completion_request \<Rightarrow> js_error + Response"

definition role_name :: "Role \<Rightarrow> string" where
  "role_name r = (case r of User \<Rightarrow> ''user'' | Assistant \<Rightarrow> ''assistant'' | System \<Rightarrow> ''system'')"

definition buildSystemPrompt :: "Settings \<Rightarrow> MemoryItem list \<Rightarrow> string" where
  "buildSystemPrompt settings memory =
     (if useMemory settings \<and> length memory > 0
      then (let memorySection = join [CHR 0x0A] (map (\<lambda>m. ''- '' @ content_mem m) memory)
            in systemPrompt settings @ [CHR 0x0A, CHR 0x0A] @ ''MEMORY (facts about the user):''
                 @ [CHR 0x0A] @ memorySection)
      else systemPrompt settings)"

subsection \<open>handleStreamingResponse\<close>

text \<open>\<open>parsed.choices?.[0]?.delta?.content\<close>: the first access is a plain one.\<close>

definition delta_content :: "json \<Rightarrow> js_error + json option" where
  "delta_content parsed =
     (case member (Some parsed) (get_prop ''choices'') of
        Inl e \<Rightarrow> Inl e
      | Inr choices \<Rightarrow>
          Inr (optional (optional (optional choices get_index0) (get_prop ''delta''))
                 (get_prop ''content'')))"

text \<open>
  The body of \<open>for (const line of lines)\<close>. The state is \<open>fullContent\<close> and the list of the
  values passed to \<open>onStream\<close> so far, oldest first. Both \<open>catch\<close> branches (a line that
  does not parse, a TypeError on a parsed \<open>null\<close>) leave the state as it is.
\<close>

definition handle_line :: "(string \<Rightarrow> json option) \<Rightarrow> string \<times> string list \<Rightarrow> string
    \<Rightarrow> string \<times> string list" where
  "handle_line parse st line =
     (let (fullContent, delivered) = st in
      if startsWith line ''data: '' then
        (let data = trim (drop 6 line) in
         if data = ''[DONE]'' then (fullContent, delivered)
         else (case parse data of
                 None \<Rightarrow> (fullContent, delivered)
               | Some parsed \<Rightarrow>
                   (case delta_content parsed of
                      Inl e \<Rightarrow> (fullContent, delivered)
                    | Inr c \<Rightarrow>
                        (let content = or_empty c in
                         if truthy (Some content)
                         then (let fullContent' = fullContent @ ToString content
                               in (fullContent', delivered @ [fullContent']))
                         else (fullContent, delivered)))))
      else (fullContent, delivered))"

text \<open>
  The \<open>while (true)\<close> loop over the chunks; the state adds \<open>buffer\<close>. The loop is written
  twice in the repository, here and in the client of the backend below, with another body
  of the inner \<open>for\<close> loop: that body is the argument \<open>h\<close>.
\<close>

fun read_loop :: "(string \<times> string list \<Rightarrow> string \<Rightarrow> string \<times> string list) \<Rightarrow> string list
    \<Rightarrow> string \<times> string \<times> string list \<Rightarrow> string \<times> string \<times> string list" where
  "read_loop h [] st = st"
| "read_loop h (value # rest) (fullContent, buffer, delivered) =
     (let buffer1 = buffer @ value;
          (popped, lines) = pop (split (CHR 0x0A) buffer1);
          buffer2 = (case popped of Some l \<Rightarrow> if l \<noteq> [] then l else [] | None \<Rightarrow> []);
          (fullContent', delivered') = foldl h (fullContent, delivered) lines
      in read_loop h rest (fullContent', buffer2, delivered'))"

text \<open>The result is the list of the values passed to \<open>onStream\<close> and the promise's outcome.\<close>

definition handleStreamingResponse :: "(string \<Rightarrow> json option) \<Rightarrow> body_stream
    \<Rightarrow> string list \<times> (js_error + string)" where
  "handleStreamingResponse parse b =
     (let (fullContent, buffer, delivered) = read_loop (handle_line parse) (fst b) ([], [], [])
      in (delivered, case snd b of None \<Rightarrow> Inr fullContent | Some e \<Rightarrow> Inl e))"

subsection \<open>handleStreamingResponse of the backend client (lib/backendApi)\<close>

text \<open>
  The backend sends frames \<open>{"content": ...}\<close>. The body of the \<open>for\<close> loop reads
  \<open>parsed.content\<close>; after it, \<open>if (parsed.error) throw new Error(parsed.error)\<close> throws
  inside the same \<open>try\<close>, whose \<open>catch\<close> is empty: the state stays as the content left it.
\<close>

definition handle_line_backend :: "(string \<Rightarrow> json option) \<Rightarrow> string \<times> string list \<Rightarrow> string
    \<Rightarrow> string \<times> string list" where
  "handle_line_backend parse st line =
     (let (fullContent, delivered) = st in
      if startsWith line ''data: '' then
        (let data = trim (drop 6 line) in
         if data = ''[DONE]'' then (fullContent, delivered)
         else (case parse data of
                 None \<Rightarrow> (fullContent, delivered)
               | Some parsed \<Rightarrow>
                   (case member (Some parsed) (get_prop ''content'') of
                      Inl e \<Rightarrow> (fullContent, delivered)
                    | Inr c \<Rightarrow>
                        (let st1 = (case c of
                                      Some v \<Rightarrow>
                                        if truthy (Some v)
                                        then (let fullContent' = fullContent @ ToString v
                                              in (fullContent', delivered @ [fullContent']))
                                        else (fullContent, delivered)
                                    | None \<Rightarrow> (fullContent, delivered));
                             thrown = truthy (get_prop ''error'' parsed)
                         in st1))))
      else (fullContent, delivered))"

definition handleStreamingResponse_backend :: "(string \<Rightarrow> json option) \<Rightarrow> body_stream
    \<Rightarrow> string list \<times> (js_error + string)" where
  "handleStreamingResponse_backend parse b =
     (let (fullContent, buffer, delivered) =
            read_loop (handle_line_backend parse) (fst b) ([], [], [])
      in (delivered, case snd b of None \<Rightarrow> Inr fullContent | Some e \<Rightarrow> Inl e))"

subsection \<open>sendMessage\<close>

text \<open>\<open>response.json()\<close>: reads the body to its end and parses the text.\<close>

definition response_json :: "(string \<Rightarrow> json option) \<Rightarrow> Response \<Rightarrow> js_error + json" where
  "response_json parse response =
     (case body response of
        None \<Rightarrow> (case parse [] of None \<Rightarrow> Inl SyntaxError | Some v \<Rightarrow> Inr v)
      | Some (chunks, Some e) \<Rightarrow> Inl e
      | Some (chunks, None) \<Rightarrow>
          (case parse (concat chunks) of None \<Rightarrow> Inl SyntaxError | Some v \<Rightarrow> Inr v))"

text \<open>
  \<open>data.choices[0]?.message?.content || ''\<close>: \<open>data.choices\<close> and \<open>[0]\<close> are plain accesses.
  The code returns a truthy content as it is; the model, whose messages hold strings,
  writes a content that is not a string with \<open>ToString\<close>.
\<close>

definition message_content :: "json \<Rightarrow> js_error + string" where
  "message_content data =
     (case member (Some data) (get_prop ''choices'') of
        Inl e \<Rightarrow> Inl e
      | Inr choices \<Rightarrow>
          (case member choices get_index0 of
             Inl e \<Rightarrow> Inl e
           | Inr first \<Rightarrow>
               Inr (ToString (or_empty
                 (optional (optional first (get_prop ''message'')) (get_prop ''content''))))))"

definition sendMessage :: "(string \<Rightarrow> json option) \<Rightarrow> fetch \<Rightarrow> Message list \<Rightarrow> Settings
    \<Rightarrow> MemoryItem list \<Rightarrow> AbortController option \<Rightarrow> string list \<times> (js_error + string)" where
  "sendMessage parse fetch msgs settings memory controller =
     (let systemPrompt = buildSystemPrompt settings memory;
          apiMessages = (''system'', systemPrompt) # map (\<lambda>m. (role_name (role m), content m)) msgs;
          request = \<lparr>url = baseUrl settings @ ''/v1/chat/completions'', model = ''local'',
                     messages_req = apiMessages, temperature_req = temperature settings,
                     max_tokens = maxTokens settings, stream = streamingEnabled settings,
                     signal = controller\<rparr>;
          (delivered, outcome) =
            (case fetch request of
               Inl e \<Rightarrow> ([], Inl e)
             | Inr response \<Rightarrow>
                 if \<not> ok response
                 then ([], Inl (JsError ''Error''
                                 (''HTTP error! status: '' @ nat_to_string (status response))))
                 else (case body response of
                         Some b \<Rightarrow>
                           if streamingEnabled settings then handleStreamingResponse parse b
                           else ([], case response_json parse response of
                                       Inl e \<Rightarrow> Inl e | Inr data \<Rightarrow> message_content data)
                       | None \<Rightarrow>
                           ([], case response_json parse response of
                                  Inl e \<Rightarrow> Inl e | Inr data \<Rightarrow> message_content data)))
      in (delivered,
          case outcome of
            Inl error \<Rightarrow>
              if err_name error = ''AbortError'' then Inl (JsError ''Error'' ''Request cancelled'')
              else Inl error
          | Inr text \<Rightarrow> Inr text))"

section \<open>State of the chat manager (src/hooks/useChatManager.ts)\<close>

text \<open>
  The hook holds the React state \<open>chats\<close> and \<open>chatStates\<close> and the ref
  \<open>abortControllersRef\<close>. The model adds what the hook reaches outside itself: the profile's
  list of chats in local storage (\<open>saveChats\<close>), the controllers on which \<open>abort()\<close> was
  called, the lines written with \<open>console.error\<close>, and the values that \<open>generateId()\<close>,
  \<open>Date.now()\<close> and \<open>new AbortController()\<close> return: the k-th call of \<open>generateId\<close> returns
  \<open>id_source k\<close>, an arbitrary sequence, and likewise for the clock.
\<close>

record manager =
  chats :: "Chat list"
  stored_chats :: "Chat list"
  chatStates :: "string \<rightharpoonup> ChatState"
  abortControllers :: "string \<rightharpoonup> AbortController"
  aborted :: "AbortController set"
  console :: "(string \<times> js_error) list"
  id_source :: "nat \<Rightarrow> string"
  id_calls :: nat
  clock :: "nat \<Rightarrow> int"
  clock_calls :: nat
  controllers_made :: nat

definition generateId :: "manager \<Rightarrow> string \<times> manager" where
  "generateId s = (id_source s (id_calls s), s\<lparr>id_calls := Suc (id_calls s)\<rparr>)"

definition Date_now :: "manager \<Rightarrow> int \<times> manager" where
  "Date_now s = (clock s (clock_calls s), s\<lparr>clock_calls := Suc (clock_calls s)\<rparr>)"

definition new_AbortController :: "manager \<Rightarrow> AbortController \<times> manager" where
  "new_AbortController s = (controllers_made s, s\<lparr>controllers_made := Suc (controllers_made s)\<rparr>)"

subsection \<open>Session registry: getChatState, updateChatState\<close>

definition default_ChatState :: ChatState where
  "default_ChatState = \<lparr>isLoading = False, streamingContent = [], abortController = None\<rparr>"

text \<open>The object spread \<open>{ ...current, ...update }\<close>.\<close>

definition spread_ChatState :: "ChatState \<Rightarrow> ChatState_partial \<Rightarrow> ChatState" where
  "spread_ChatState current update =
     \<lparr>isLoading = (case isLoading_upd update of Some b \<Rightarrow> b | None \<Rightarrow> isLoading current),
      streamingContent =
        (case streamingContent_upd update of Some t \<Rightarrow> t | None \<Rightarrow> streamingContent current),
      abortController =
        (case abortController_upd update of Some a \<Rightarrow> a | None \<Rightarrow> abortController current)\<rparr>"

definition getChatState :: "manager \<Rightarrow> string \<Rightarrow> ChatState" where
  "getChatState s chatId =
     (case chatStates s chatId of Some st \<Rightarrow> st | None \<Rightarrow> default_ChatState)"

definition updateChatState :: "string \<Rightarrow> ChatState_partial \<Rightarrow> manager \<Rightarrow> manager" where
  "updateChatState chatId update s =
     (let prev = chatStates s;
          current = (case prev chatId of Some st \<Rightarrow> st | None \<Rightarrow> default_ChatState);
          newMap = prev(chatId \<mapsto> spread_ChatState current update)
      in s\<lparr>chatStates := newMap\<rparr>)"

text \<open>The two updates the manager issues: \<open>{ isLoading: b, streamingContent: '' }\<close> and
  \<open>{ streamingContent: content }\<close>.\<close>

definition loading_update :: "bool \<Rightarrow> ChatState_partial" where
  "loading_update b =
     \<lparr>isLoading_upd = Some b, streamingContent_upd = Some [], abortController_upd = None\<rparr>"

definition streaming_update :: "string \<Rightarrow> ChatState_partial" where
  "streaming_update t =
     \<lparr>isLoading_upd = None, streamingContent_upd = Some t, abortController_upd = None\<rparr>"

definition persistChats :: "Chat list \<Rightarrow> manager \<Rightarrow> manager" where
  "persistChats newChats s = s\<lparr>chats := newChats, stored_chats := newChats\<rparr>"

subsection \<open>stopGeneration\<close>

definition stopGeneration :: "string \<Rightarrow> manager \<Rightarrow> manager" where
  "stopGeneration chatId s =
     (let s1 = (case abortControllers s chatId of
                  Some controller \<Rightarrow>
                    s\<lparr>aborted := insert controller (aborted s),
                      abortControllers := (abortControllers s)(chatId := None)\<rparr>
                | None \<Rightarrow> s)
      in updateChatState chatId (loading_update False) s1)"

subsection \<open>generateChatTitle (src/lib/storage.ts)\<close>

definition generateChatTitle :: "string \<Rightarrow> string" where
  "generateChatTitle firstMessage =
     (let cleaned = take 50 (trim firstMessage)
      in if length cleaned < length (trim firstMessage) then cleaned @ ''...'' else cleaned)"

subsection \<open>getChat, and the searches of the manager\<close>

definition getChat :: "manager \<Rightarrow> string \<Rightarrow> Chat option" where
  "getChat s chatId = find (\<lambda>c. id_chat c = chatId) (chats s)"

text \<open>\<open>newChats.map(c => c.id === chat.id ? chat : c)\<close>.\<close>

definition replace_chat :: "Chat \<Rightarrow> Chat list \<Rightarrow> Chat list" where
  "replace_chat chat cs = map (\<lambda>c. if id_chat c = id_chat chat then chat else c) cs"

text \<open>
  \<open>for (let i = n - 1; i >= 0; i--) if (messages[i].role === 'assistant') { ...; break; }\<close>
  starting from \<open>lastAssistantIndex = -1\<close>. The second argument is \<open>i + 1\<close>.
\<close>

fun lastAssistantIndex_loop :: "Message list \<Rightarrow> nat \<Rightarrow> int" where
  "lastAssistantIndex_loop ms 0 = -1"
| "lastAssistantIndex_loop ms (Suc i) =
     (if role (ms ! i) = Assistant then int i else lastAssistantIndex_loop ms i)"

text \<open>\<open>xs.findIndex(p)\<close>: the first index whose element satisfies \<open>p\<close>, or \<open>-1\<close>.\<close>

fun findIndex_from :: "('a \<Rightarrow> bool) \<Rightarrow> 'a list \<Rightarrow> nat \<Rightarrow> int" where
  "findIndex_from p [] k = -1"
| "findIndex_from p (x # xs) k = (if p x then int k else findIndex_from p xs (Suc k))"

definition findIndex :: "('a \<Rightarrow> bool) \<Rightarrow> 'a list \<Rightarrow> int" where
  "findIndex p xs = findIndex_from p xs 0"

subsection \<open>A generation in flight\<close>

text \<open>
  \<open>sendUserMessage\<close>, \<open>regenerateLastResponse\<close> and \<open>editAndResend\<close> are asynchronous: each
  runs up to \<open>await sendMessage(...)\<close>, is suspended there while other handlers may run, and
  resumes with the outcome. The model splits each of them at the \<open>await\<close>. A \<open>generation\<close>
  holds the local variables that the suspended function keeps: the identifier
  (\<open>targetChatId\<close>, \<open>chatId\<close>), the chat whose messages were sent (\<open>chat\<close>, \<open>updatedChat\<close>),
  \<open>newChats\<close> and the controller. The part before the \<open>await\<close> reads \<open>chats\<close> from the state,
  that is, the handler of the latest render is the one called.
\<close>

record generation =
  target :: string
  chat_sent :: Chat
  newChats :: "Chat list"
  controller :: AbortController

text \<open>The callback \<open>(content) => updateChatState(chatId, { streamingContent: content })\<close>.\<close>

definition onStream :: "generation \<Rightarrow> string \<Rightarrow> manager \<Rightarrow> manager" where
  "onStream g t s = updateChatState (target g) (streaming_update t) s"

text \<open>
  The three functions continue after the \<open>await\<close> with the same statements, up to the names
  of the variables and the label of \<open>console.error\<close>: the \<open>try\<close> block commits the assistant
  message, \<open>catch\<close> logs the error, \<open>finally\<close> resets the session.
\<close>

definition settle :: "string \<Rightarrow> generation \<Rightarrow> js_error + string \<Rightarrow> manager \<Rightarrow> manager" where
  "settle label g result s =
     (let s1 = (case result of
                  Inr response \<Rightarrow>
                    (let (newId, sa) = generateId s;
                         (t1, sb) = Date_now sa;
                         assistantMessage =
                           \<lparr>id_msg = newId, role = Assistant, content = response, timestamp = t1\<rparr>;
                         (t2, sc) = Date_now sb;
                         finalChat = (chat_sent g)
                           \<lparr>messages := messages (chat_sent g) @ [assistantMessage],
                            updatedAt := t2\<rparr>;
                         finalChats = replace_chat finalChat (newChats g)
                     in persistChats finalChats sc)
                | Inl error \<Rightarrow> s\<lparr>console := console s @ [(label, error)]\<rparr>);
          s2 = updateChatState (target g) (loading_update False) s1
      in s2\<lparr>abortControllers := (abortControllers s2)(target g := None)\<rparr>)"

text \<open>
  The \<open>await\<close> when nothing else runs in between: the request is sent with the messages of
  the chat and the controller's signal, and every value passed to \<open>onStream\<close> is applied
  to the state in order.
\<close>

definition await_sendMessage :: "(string \<Rightarrow> json option) \<Rightarrow> fetch \<Rightarrow> Settings \<Rightarrow> MemoryItem list
    \<Rightarrow> generation \<Rightarrow> manager \<Rightarrow> (js_error + string) \<times> manager" where
  "await_sendMessage parse fetch settings memory g s =
     (let (delivered, result) =
            sendMessage parse fetch (messages (chat_sent g)) settings memory (Some (controller g))
      in (result, foldl (\<lambda>s' t. onStream g t s') s delivered))"

text \<open>Setting up the session: the new controller is stored and the session marked loading.\<close>

definition open_session :: "string \<Rightarrow> manager \<Rightarrow> AbortController \<times> manager" where
  "open_session chatId s =
     (let (c, s1) = new_AbortController s;
          s2 = s1\<lparr>abortControllers := (abortControllers s1)(chatId \<mapsto> c)\<rparr>
      in (c, updateChatState chatId (loading_update True) s2))"

subsection \<open>sendUserMessage\<close>

text \<open>\<open>chatId ? chats.find(c => c.id === chatId) : null\<close>; the empty string is falsy. A chat
  that is found has the identifier \<open>chatId\<close>, which stays the \<open>targetChatId\<close>.\<close>

definition find_chat :: "string option \<Rightarrow> manager \<Rightarrow> Chat option" where
  "find_chat chatId s =
     (case chatId of Some i \<Rightarrow> if i \<noteq> [] then getChat s i else None | None \<Rightarrow> None)"

definition sendUserMessage_start :: "string option \<Rightarrow> string \<Rightarrow> manager \<Rightarrow> generation \<times> manager" where
  "sendUserMessage_start chatId text s =
     (let (chat1, newChats1, targetChatId, s1) =
            (case find_chat chatId s of
               Some c \<Rightarrow> (c, chats s, id_chat c, s)
             | None \<Rightarrow>
                 (let (newId, sa) = generateId s;
                      (t1, sb) = Date_now sa;
                      (t2, sc) = Date_now sb;
                      c = \<lparr>id_chat = newId, title = generateChatTitle text, messages = [],
                           createdAt = t1, updatedAt = t2, pinned = False, archived = False\<rparr>
                  in (c, c # chats s, newId, sc)));
          (msgId, s2) = generateId s1;
          (t3, s3) = Date_now s2;
          userMessage = \<lparr>id_msg = msgId, role = User, content = text, timestamp = t3\<rparr>;
          chat2 = (if length (messages chat1) = 0 \<and> title chat1 = ''New chat''
                   then chat1\<lparr>title := generateChatTitle text\<rparr> else chat1);
          (t4, s4) = Date_now s3;
          chat3 = chat2\<lparr>messages := messages chat2 @ [userMessage], updatedAt := t4\<rparr>;
          newChats2 = replace_chat chat3 newChats1;
          s5 = persistChats newChats2 s4;
          (c, s6) = open_session targetChatId s5
      in (\<lparr>target = targetChatId, chat_sent = chat3, newChats = newChats2, controller = c\<rparr>, s6))"

text \<open>The promise of \<open>sendUserMessage\<close> resolves with \<open>targetChatId\<close>: no statement after the
  \<open>await\<close> lets an error out of the \<open>try\<close>.\<close>

definition sendUserMessage_resume :: "generation \<Rightarrow> js_error + string \<Rightarrow> manager
    \<Rightarrow> (js_error + string) \<times> manager" where
  "sendUserMessage_resume g result s = (Inr (target g), settle ''Error sending message:'' g result s)"

definition sendUserMessage :: "(string \<Rightarrow> json option) \<Rightarrow> fetch \<Rightarrow> Settings \<Rightarrow> MemoryItem list
    \<Rightarrow> string option \<Rightarrow> string \<Rightarrow> manager \<Rightarrow> (js_error + string) \<times> manager" where
  "sendUserMessage parse fetch settings memory chatId text s =
     (let (g, s1) = sendUserMessage_start chatId text s;
          (result, s2) = await_sendMessage parse fetch settings memory g s1
      in sendUserMessage_resume g result s2)"

subsection \<open>regenerateLastResponse\<close>

text \<open>The function returns early, with the state as it was, when the chat is unknown, has
  fewer than two messages or has no assistant message: the result is then \<open>None\<close>.\<close>

definition regenerateLastResponse_start :: "string \<Rightarrow> manager \<Rightarrow> generation option \<times> manager" where
  "regenerateLastResponse_start chatId s =
     (case getChat s chatId of
        None \<Rightarrow> (None, s)
      | Some chat \<Rightarrow>
          if length (messages chat) < 2 then (None, s)
          else (let lastAssistantIndex =
                      lastAssistantIndex_loop (messages chat) (length (messages chat))
                in if lastAssistantIndex = -1 then (None, s)
                   else (let messagesWithoutLast = take (nat lastAssistantIndex) (messages chat);
                             (t1, s1) = Date_now s;
                             updatedChat = chat\<lparr>messages := messagesWithoutLast, updatedAt := t1\<rparr>;
                             newChats1 = replace_chat updatedChat (chats s);
                             s2 = persistChats newChats1 s1;
                             (c, s3) = open_session chatId s2
                         in (Some \<lparr>target = chatId, chat_sent = updatedChat,
                                    newChats = newChats1, controller = c\<rparr>, s3))))"

definition regenerateLastResponse_resume :: "generation \<Rightarrow> js_error + string \<Rightarrow> manager
    \<Rightarrow> (js_error + unit) \<times> manager" where
  "regenerateLastResponse_resume g result s = (Inr (), settle ''Error regenerating:'' g result s)"

definition regenerateLastResponse :: "(string \<Rightarrow> json option) \<Rightarrow> fetch \<Rightarrow> Settings
    \<Rightarrow> MemoryItem list \<Rightarrow> string \<Rightarrow> manager \<Rightarrow> (js_error + unit) \<times> manager" where
  "regenerateLastResponse parse fetch settings memory chatId s =
     (case regenerateLastResponse_start chatId s of
        (None, s1) \<Rightarrow> (Inr (), s1)
      | (Some g, s1) \<Rightarrow>
          (let (result, s2) = await_sendMessage parse fetch settings memory g s1
           in regenerateLastResponse_resume g result s2))"

subsection \<open>editAndResend\<close>

definition editAndResend_start :: "string \<Rightarrow> string \<Rightarrow> string \<Rightarrow> manager
    \<Rightarrow> generation option \<times> manager" where
  "editAndResend_start chatId messageId newContent s =
     (case getChat s chatId of
        None \<Rightarrow> (None, s)
      | Some chat \<Rightarrow>
          (let messageIndex = findIndex (\<lambda>m. id_msg m = messageId) (messages chat)
           in if messageIndex = -1 then (None, s)
              else if role (messages chat ! nat messageIndex) \<noteq> User then (None, s)
              else (let messagesUpToEdit = take (nat messageIndex) (messages chat);
                        (t1, s1) = Date_now s;
                        editedMessage = (messages chat ! nat messageIndex)
                          \<lparr>content := newContent, timestamp := t1\<rparr>;
                        (t2, s2) = Date_now s1;
                        updatedChat = chat\<lparr>messages := messagesUpToEdit @ [editedMessage],
                                          updatedAt := t2\<rparr>;
                        newChats1 = replace_chat updatedChat (chats s);
                        s3 = persistChats newChats1 s2;
                        (c, s4) = open_session chatId s3
                    in (Some \<lparr>target = chatId, chat_sent = updatedChat,
                               newChats = newChats1, controller = c\<rparr>, s4))))"

definition editAndResend_resume :: "generation \<Rightarrow> js_error + string \<Rightarrow> manager
    \<Rightarrow> (js_error + unit) \<times> manager" where
  "editAndResend_resume g result s = (Inr (), settle ''Error editing and resending:'' g result s)"

definition editAndResend :: "(string \<Rightarrow> json option) \<Rightarrow> fetch \<Rightarrow> Settings \<Rightarrow> MemoryItem list
    \<Rightarrow> string \<Rightarrow> string \<Rightarrow> string \<Rightarrow> manager \<Rightarrow> (js_error + unit) \<times> manager" where
  "editAndResend parse fetch settings memory chatId messageId newContent s =
     (case editAndResend_start chatId messageId newContent s of
        (None, s1) \<Rightarrow> (Inr (), s1)
      | (Some g, s1) \<Rightarrow>
          (let (result, s2) = await_sendMessage parse fetch settings memory g s1
           in editAndResend_resume g result s2))"

subsection \<open>importChat, and handleImportChat (src/components/Sidebar.tsx)\<close>

definition importChat :: "Chat \<Rightarrow> manager \<Rightarrow> string \<times> manager" where
  "importChat chatData s =
     (let (newId, s1) = generateId s;
          (t1, s2) = Date_now s1;
          (t2, s3) = Date_now s2;
          newChat = chatData\<lparr>id_chat := newId, createdAt := t1, updatedAt := t2\<rparr>;
          newChats1 = newChat # chats s
      in (newId, persistChats newChats1 s3))"

text \<open>
  The cast \<open>data as Chat\<close> checks nothing. A record has no place for a field that is
  missing or of another type: the model reads such a field as the empty string, 0, \<open>False\<close>,
  the empty list, and a role that is none of the three as \<open>System\<close>.
\<close>

definition string_field :: "string \<Rightarrow> json \<Rightarrow> string" where
  "string_field key v = (case get_prop key v of Some (JStr t) \<Rightarrow> t | _ \<Rightarrow> [])"

definition number_field :: "string \<Rightarrow> json \<Rightarrow> int" where
  "number_field key v = (case get_prop key v of Some (JNum n) \<Rightarrow> n | _ \<Rightarrow> 0)"

definition boolean_field :: "string \<Rightarrow> json \<Rightarrow> bool" where
  "boolean_field key v = (case get_prop key v of Some (JBool b) \<Rightarrow> b | _ \<Rightarrow> False)"

definition as_Message :: "json \<Rightarrow> Message" where
  "as_Message v =
     \<lparr>id_msg = string_field ''id'' v,
      role = (let r = string_field ''role'' v
              in if r = ''user'' then User else if r = ''assistant'' then Assistant else System),
      content = string_field ''content'' v,
      timestamp = number_field ''timestamp'' v\<rparr>"

definition as_Chat :: "json \<Rightarrow> Chat" where
  "as_Chat data =
     \<lparr>id_chat = string_field ''id'' data,
      title = string_field ''title'' data,
      messages = (case get_prop ''messages'' data of Some (JArr ms) \<Rightarrow> map as_Message ms | _ \<Rightarrow> []),
      createdAt = number_field ''createdAt'' data,
      updatedAt = number_field ''updatedAt'' data,
      pinned = boolean_field ''pinned'' data,
      archived = boolean_field ''archived'' data\<rparr>"

definition isArray :: "json option \<Rightarrow> bool" where
  "isArray e = (case e of Some (JArr xs) \<Rightarrow> True | _ \<Rightarrow> False)"

text \<open>
  The \<open>onchange\<close> handler of the file input; \<open>file\<close> is the text of the chosen file, \<open>None\<close>
  when no file was chosen. \<open>onImportChat\<close> is the manager's \<open>importChat\<close>
  (src/components/ChatApp.tsx). Errors of the \<open>try\<close> block are logged.
\<close>

definition handleImportChat :: "(string \<Rightarrow> json option) \<Rightarrow> string option \<Rightarrow> manager \<Rightarrow> manager" where
  "handleImportChat parse file s =
     (case file of
        None \<Rightarrow> s
      | Some text \<Rightarrow>
          (case parse text of
             None \<Rightarrow> s\<lparr>console := console s @ [(''Error importing chat:'', SyntaxError)]\<rparr>
           | Some data \<Rightarrow>
               (case member (Some data) (get_prop ''messages'') of
                  Inl e \<Rightarrow> s\<lparr>console := console s @ [(''Error importing chat:'', e)]\<rparr>
                | Inr m \<Rightarrow>
                    if truthy m \<and> isArray m then snd (importChat (as_Chat data) s) else s)))"

section \<open>Predicates used in the statements\<close>

text \<open>A session is idle when it has no cancellation handle, is not loading and has no
  streaming text.\<close>

definition idle :: "manager \<Rightarrow> string \<Rightarrow> bool" where
  "idle s chatId =
     (abortControllers s chatId = None \<and> \<not> isLoading (getChatState s chatId)
      \<and> streamingContent (getChatState s chatId) = [])"

text \<open>The invariant of the decoders: the values delivered so far grow by prefix and
  the last of them is \<open>fullContent\<close>.\<close>

definition accumulates :: "string \<times> string list \<Rightarrow> bool" where
  "accumulates st =
     (successively prefix (snd st)
      \<and> (if snd st = [] then fst st = [] else last (snd st) = fst st))"

text \<open>The messages of the conversation before a send: those of the chat that
  \<open>sendUserMessage\<close> finds, none when it creates the chat.\<close>

definition prior_messages :: "string option \<Rightarrow> manager \<Rightarrow> Message list" where
  "prior_messages chatId s = (case find_chat chatId s of Some c \<Rightarrow> messages c | None \<Rightarrow> [])"

text \<open>The chat that a send builds from the chat \<open>c\<close> it finds: the title is derived when the
  chat is new, the user message is appended.\<close>

definition with_user_message :: "Chat \<Rightarrow> string \<Rightarrow> manager \<Rightarrow> Chat" where
  "with_user_message c input s =
     (if length (messages c) = 0 \<and> title c = ''New chat''
      then c\<lparr>title := generateChatTitle input\<rparr> else c)
       \<lparr>messages := messages c @
          [\<lparr>id_msg = id_source s (id_calls s), role = User, content = input,
            timestamp = clock s (clock_calls s)\<rparr>],
        updatedAt := clock s (Suc (clock_calls s))\<rparr>"

text \<open>The generation is cancelled: \<open>fetch\<close> rejects with an \<open>AbortError\<close>, or the response is a
  success and reading its body ends with an \<open>AbortError\<close>.\<close>

definition aborts :: "js_error + Response \<Rightarrow> bool" where
  "aborts out =
     (case out of
        Inl e \<Rightarrow> err_name e = ''AbortError''
      | Inr response \<Rightarrow>
          ok response \<and>
          (case body response of
             Some (chunks, Some e) \<Rightarrow> err_name e = ''AbortError''
           | _ \<Rightarrow> False))"

text \<open>The request fails with the error \<open>e\<close> that \<open>sendMessage\<close> throws: \<open>fetch\<close> rejects with
  \<open>e\<close>, a failure of the network and not an abort, or the response has a status that is no
  success and \<open>e\<close> is the error made from it.\<close>

definition fails_with :: "js_error + Response \<Rightarrow> js_error \<Rightarrow> bool" where
  "fails_with out e =
     (case out of
        Inl x \<Rightarrow> x = e \<and> err_name e \<noteq> ''AbortError''
      | Inr response \<Rightarrow>
          \<not> ok response
          \<and> e = JsError ''Error'' (''HTTP error! status: '' @ nat_to_string (status response)))"

text \<open>A response body that has a \<open>choices\<close> array but no text: the array is empty, or its
  first element has no \<open>message\<close>, or the message has no \<open>content\<close>.\<close>

definition lacks_text :: "json \<Rightarrow> bool" where
  "lacks_text data =
     (case get_prop ''choices'' data of
        Some (JArr []) \<Rightarrow> True
      | Some (JArr (first # rest)) \<Rightarrow>
          (case get_prop ''message'' first of
             None \<Rightarrow> True
           | Some m \<Rightarrow> get_prop ''content'' m = None)
      | _ \<Rightarrow> False)"


section \<open>The examples\<close>

subsection \<open>Streams, settings and networks\<close>

text \<open>Frames as the completion endpoint sends them, frames as the backend sends them, and a
  data frame after the sentinel.\<close>

definition LF :: char where
  "LF = CHR 0x0A"

definition CR :: char where
  "CR = CHR 0x0D"

definition completion_frames :: body_stream where
  \<open>completion_frames =
     ([''data: {"choices":[{"delta":{"content":"He"}}]}'' @ [LF, LF],
       ''data: {"choices":[{"delta":{"content":"llo"}}]}'' @ [LF, LF],
       ''data: [DONE]'' @ [LF, LF]], None)\<close>

definition backend_frames :: body_stream where
  \<open>backend_frames =
     ([''data: {"content":"He"}'' @ [LF, LF],
       ''data: {"content":"llo"}'' @ [LF, LF],
       ''data: [DONE]'' @ [LF, LF]], None)\<close>

definition frames_after_DONE :: body_stream where
  \<open>frames_after_DONE =
     ([''data: [DONE]'' @ [LF, LF],
       ''data: {"choices":[{"delta":{"content":"late"}}]}'' @ [LF, LF]], None)\<close>

text \<open>\<open>defaultSettings\<close> of src/lib/storage.ts, and the same with streaming switched off.\<close>

definition defaultSettings :: Settings where
  "defaultSettings =
     \<lparr>systemPrompt = ''You are a helpful AI assistant.'', temperature = 7 / 10, maxTokens = 2048,
      streamingEnabled = True, baseUrl = ''http://127.0.0.1:8081'', useMemory = True,
      theme = Dark\<rparr>"

definition settings_without_streaming :: Settings where
  "settings_without_streaming = defaultSettings\<lparr>streamingEnabled := False\<rparr>"

text \<open>Networks: a streamed answer \<open>Hello\<close>, an abort, a status 500, no connection, and an
  endpoint that answers every request with status 200 and the body \<open>t\<close>.\<close>

definition hello_fetch :: fetch where
  "hello_fetch req = Inr \<lparr>ok = True, status = 200, body = Some completion_frames\<rparr>"

definition aborted_fetch :: fetch where
  "aborted_fetch req = Inl (JsError ''AbortError'' ''The user aborted a request.'')"

definition status_500_fetch :: fetch where
  "status_500_fetch req = Inr \<lparr>ok = False, status = 500, body = None\<rparr>"

definition offline_fetch :: fetch where
  "offline_fetch req = Inl (JsError ''TypeError'' ''Failed to fetch'')"

definition json_fetch :: "string \<Rightarrow> fetch" where
  "json_fetch t req = Inr \<lparr>ok = True, status = 200, body = Some ([t], None)\<rparr>"

definition no_content_body :: string where
  \<open>no_content_body = ''{"choices":[{"message":{}}]}''\<close>

definition no_content_response :: Response where
  "no_content_response = \<lparr>ok = True, status = 200, body = Some ([no_content_body], None)\<rparr>"

definition no_content_data :: json where
  "no_content_data = JObj [(''choices'', JArr [JObj [(''message'', JObj [])]])]"

subsection \<open>States of the manager\<close>

text \<open>The state of the hook when it is mounted on the stored chats \<open>cs\<close>, with identifiers
  \<open>id0\<close>, \<open>id1\<close>, ... and a clock that starts at 1000.\<close>

definition initial_manager :: "Chat list \<Rightarrow> manager" where
  "initial_manager cs =
     \<lparr>chats = cs, stored_chats = cs, chatStates = Map.empty, abortControllers = Map.empty,
      aborted = {}, console = [], id_source = (\<lambda>k. ''id'' @ nat_to_string k), id_calls = 0,
      clock = (\<lambda>k. 1000 + int k), clock_calls = 0, controllers_made = 0\<rparr>"

definition example_chat :: "string \<Rightarrow> Message list \<Rightarrow> Chat" where
  "example_chat i ms =
     \<lparr>id_chat = i, title = ''New chat'', messages = ms, createdAt = 1, updatedAt = 2,
      pinned = False, archived = False\<rparr>"

definition user_message :: "string \<Rightarrow> string \<Rightarrow> Message" where
  "user_message i t = \<lparr>id_msg = i, role = User, content = t, timestamp = 5\<rparr>"

definition assistant_message :: "string \<Rightarrow> string \<Rightarrow> Message" where
  "assistant_message i t = \<lparr>id_msg = i, role = Assistant, content = t, timestamp = 6\<rparr>"

definition two_chats :: manager where
  "two_chats = initial_manager [example_chat ''A'' [], example_chat ''B'' []]"

definition one_stored_chat :: manager where
  "one_stored_chat = initial_manager [example_chat ''old'' []]"

definition chat_A_with_history :: manager where
  "chat_A_with_history =
     initial_manager [example_chat ''A'' [user_message ''m1'' ''q1'', assistant_message ''m2'' ''a1''],
                      example_chat ''B'' []]"

definition chat_A_unanswered :: manager where
  "chat_A_unanswered =
     initial_manager [example_chat ''A'' [user_message ''m1'' ''q1'', assistant_message ''m2'' ''a1'',
                                         user_message ''m3'' ''q2''],
                      example_chat ''B'' []]"


text \<open>Chat \<open>B\<close> in the middle of a generation, chat \<open>A\<close> at rest.\<close>

definition streaming_B :: manager where
  "streaming_B =
     (initial_manager [example_chat ''A'' [], example_chat ''B'' [user_message ''m1'' ''question'']])
       \<lparr>chatStates := [''B'' \<mapsto> \<lparr>isLoading = True, streamingContent = ''partial'',
                                  abortController = None\<rparr>],
        abortControllers := [''B'' \<mapsto> 0],
        controllers_made := 1\<rparr>"

text \<open>A send on chat \<open>A\<close>, suspended at its \<open>await\<close>.\<close>

definition generation_A :: generation where
  "generation_A =
     \<lparr>target = ''A'', chat_sent = example_chat ''A'' [user_message ''m2'' ''hi''],
      newChats = [example_chat ''A'' [user_message ''m2'' ''hi''],
                  example_chat ''B'' [user_message ''m1'' ''question'']],
      controller = 1\<rparr>"

subsection \<open>Files to import\<close>

definition empty_messages_file :: string where
  \<open>empty_messages_file = ''{"messages": []}''\<close>

definition exported_file :: string where
  \<open>exported_file =
     ''{"id":"old","title":"T",''
     @ ''"messages":[{"id":"m1","role":"user","content":"hi","timestamp":5}],''
     @ ''"createdAt":1,"updatedAt":2,"pinned":false,"archived":false,"exportedAt":3}''\<close>

definition exported_data :: json where
  "exported_data =
     JObj [(''id'', JStr ''old''), (''title'', JStr ''T''),
           (''messages'', JArr [JObj [(''id'', JStr ''m1''), (''role'', JStr ''user''),
                                      (''content'', JStr ''hi''), (''timestamp'', JNum 5)]]),
           (''createdAt'', JNum 1), (''updatedAt'', JNum 2), (''pinned'', JBool False),
           (''archived'', JBool False), (''exportedAt'', JNum 3)]"

section \<open>Properties\<close>

subsection \<open>The session registry\<close>

lemma getChatState_updateChatState_other:
  "a \<noteq> b \<Longrightarrow> getChatState (updateChatState a u s) b = getChatState s b"
  by (simp add: getChatState_def updateChatState_def Let_def)

lemma getChatState_updateChatState_same:
  "getChatState (updateChatState a u s) a = spread_ChatState (getChatState s a) u"
  by (simp add: getChatState_def updateChatState_def Let_def)

lemma chatStates_updateChatState:
  "chatStates (updateChatState a u s) =
     (chatStates s)(a \<mapsto> spread_ChatState (getChatState s a) u)"
  by (simp add: updateChatState_def getChatState_def Let_def)

lemma chatStates_settle:
  "chatStates (settle label g r s) =
     (chatStates s)(target g \<mapsto>
        spread_ChatState (getChatState s (target g)) (loading_update False))"
  by (simp add: settle_def Let_def chatStates_updateChatState getChatState_def persistChats_def
      generateId_def Date_now_def split: sum.splits prod.splits)

lemma chatStates_open_session:
  "chatStates (snd (open_session a s)) =
     (chatStates s)(a \<mapsto> spread_ChatState (getChatState s a) (loading_update True))"
  by (simp add: open_session_def Let_def chatStates_updateChatState getChatState_def
      new_AbortController_def split: prod.splits)

lemma chatStates_sendUserMessage_start:
  "chatStates (snd (sendUserMessage_start chatId text s)) =
     (chatStates s)(target (fst (sendUserMessage_start chatId text s)) \<mapsto>
        spread_ChatState (getChatState s (target (fst (sendUserMessage_start chatId text s))))
          (loading_update True))"
  by (simp add: sendUserMessage_start_def Let_def getChatState_def persistChats_def
      generateId_def Date_now_def open_session_def new_AbortController_def
      chatStates_updateChatState split: option.splits prod.splits)

text \<open>
  C1. A registry update keyed by conversation \<open>a\<close> leaves the runtime state read through
  another identifier \<open>b\<close> as it was. This holds for \<open>updateChatState\<close> itself and for each
  step of a send on \<open>a\<close>, in whatever state the step runs: the part before the \<open>await\<close>
  (which sets the loading flag), every streaming callback, and the part after the \<open>await\<close>
  (which resets the session). So a send on \<open>b\<close> that is in flight at the same time never
  sees the loading flag or the streaming text of \<open>a\<close>.
\<close>

theorem sessions_independent:
  assumes "a \<noteq> b"
  shows "getChatState (updateChatState a u s) b = getChatState s b
       \<and> getChatState (onStream (g\<lparr>target := a\<rparr>) t s) b = getChatState s b
       \<and> getChatState (snd (sendUserMessage_resume (g\<lparr>target := a\<rparr>) r s)) b = getChatState s b
       \<and> (target (fst (sendUserMessage_start chatId text s)) = a \<longrightarrow>
            getChatState (snd (sendUserMessage_start chatId text s)) b = getChatState s b)"
proof -
  have upd: "getChatState (updateChatState a u' s') b = getChatState s' b" for u' s'
    using assms by (simp add: getChatState_def chatStates_updateChatState)
  have resume:
    "getChatState (snd (sendUserMessage_resume (g\<lparr>target := a\<rparr>) r s)) b = getChatState s b"
    using assms by (simp add: sendUserMessage_resume_def getChatState_def chatStates_settle)
  have start: "getChatState (snd (sendUserMessage_start chatId text s)) b = getChatState s b"
    if "target (fst (sendUserMessage_start chatId text s)) = a"
    using assms that by (simp add: getChatState_def chatStates_sendUserMessage_start)
  show ?thesis
    using upd resume start by (simp add: onStream_def)
qed

theorem sessions_independent_witness:
  "''A'' \<noteq> ''B''
   \<and> target (fst (sendUserMessage_start (Some ''A'') ''hi'' streaming_B)) = ''A''
   \<and> getChatState streaming_B ''B''
       = \<lparr>isLoading = True, streamingContent = ''partial'', abortController = None\<rparr>
   \<and> getChatState (snd (sendUserMessage_start (Some ''A'') ''hi'' streaming_B)) ''B''
       = getChatState streaming_B ''B''
   \<and> getChatState (onStream (generation_A\<lparr>target := ''A''\<rparr>) ''He'' streaming_B) ''B''
       = getChatState streaming_B ''B''
   \<and> getChatState (snd (sendUserMessage_resume (generation_A\<lparr>target := ''A''\<rparr>) (Inr ''Hello'')
        streaming_B)) ''B'' = getChatState streaming_B ''B''"
proof -
  have ne: "''A'' \<noteq> ''B''" by simp
  have tgt: "target (fst (sendUserMessage_start (Some ''A'') ''hi'' streaming_B)) = ''A''"
    by code_simp
  have obs: "getChatState streaming_B ''B''
       = \<lparr>isLoading = True, streamingContent = ''partial'', abortController = None\<rparr>"
    by code_simp
  note frame = sessions_independent [OF ne, of "streaming_update ''He''" streaming_B generation_A
      "''He''" "Inr ''Hello''" "Some ''A''" "''hi''"]
  from frame tgt
  have "getChatState (snd (sendUserMessage_start (Some ''A'') ''hi'' streaming_B)) ''B''
       = getChatState streaming_B ''B''" by blast
  with frame ne tgt obs show ?thesis by blast
qed

subsection \<open>stopGeneration\<close>

text \<open>
  C9. \<open>stopGeneration\<close> is idempotent. On an idle session it changes nothing that can be
  observed: \<open>getChatState\<close> answers as before for every identifier and every other part
  of the state is the same (the registry may gain an entry equal to the default state).
  In every state, and so in a streaming one, calling it twice gives exactly the state that
  calling it once gives, and that state is idle for the conversation: not loading, empty
  streaming text, no cancellation handle.
\<close>

theorem stopGeneration_idempotent:
  "(idle s chatId \<longrightarrow>
      (\<forall>c. getChatState (stopGeneration chatId s) c = getChatState s c)
      \<and> (stopGeneration chatId s)\<lparr>chatStates := Map.empty\<rparr> = s\<lparr>chatStates := Map.empty\<rparr>)
   \<and> stopGeneration chatId (stopGeneration chatId s) = stopGeneration chatId s
   \<and> idle (stopGeneration chatId s) chatId"
proof -
  have noop: "getChatState (stopGeneration chatId s) c = getChatState s c" if "idle s chatId" for c
    using that
    by (cases "chatStates s chatId")
       (auto simp add: idle_def stopGeneration_def getChatState_def updateChatState_def Let_def
          spread_ChatState_def loading_update_def default_ChatState_def)
  have rest: "(stopGeneration chatId s)\<lparr>chatStates := Map.empty\<rparr> = s\<lparr>chatStates := Map.empty\<rparr>"
    if "idle s chatId"
    using that by (simp add: idle_def stopGeneration_def updateChatState_def Let_def)
  have twice: "stopGeneration chatId (stopGeneration chatId s) = stopGeneration chatId s"
    by (simp add: stopGeneration_def updateChatState_def Let_def spread_ChatState_def
        loading_update_def split: option.splits)
  have ends: "idle (stopGeneration chatId s) chatId"
    by (simp add: idle_def stopGeneration_def updateChatState_def getChatState_def Let_def
        spread_ChatState_def loading_update_def split: option.splits)
  show ?thesis using noop rest twice ends by blast
qed

theorem stopGeneration_idempotent_witness:
  "idle two_chats ''A''
   \<and> (\<forall>c. getChatState (stopGeneration ''A'' two_chats) c = getChatState two_chats c)
   \<and> (stopGeneration ''A'' two_chats)\<lparr>chatStates := Map.empty\<rparr>
       = two_chats\<lparr>chatStates := Map.empty\<rparr>
   \<and> isLoading (getChatState streaming_B ''B'') \<and> abortControllers streaming_B ''B'' = Some 0
   \<and> stopGeneration ''B'' (stopGeneration ''B'' streaming_B) = stopGeneration ''B'' streaming_B
   \<and> idle (stopGeneration ''B'' streaming_B) ''B''"
proof -
  have i: "idle two_chats ''A''" by code_simp
  have st: "isLoading (getChatState streaming_B ''B'') \<and> abortControllers streaming_B ''B'' = Some 0"
    by code_simp
  from stopGeneration_idempotent [of two_chats "''A''"] i
    stopGeneration_idempotent [of streaming_B "''B''"] st
  show ?thesis by blast
qed

subsection \<open>The decoders\<close>

lemma accumulates_snoc:
  "accumulates (full, ds) \<Longrightarrow> accumulates (full @ x, ds @ [full @ x])"
  by (auto simp add: accumulates_def successively_append_iff split: if_splits)

lemma accumulates_handle_line:
  "accumulates st \<Longrightarrow> accumulates (handle_line parse st line)"
  by (cases st)
     (auto simp add: handle_line_def Let_def accumulates_snoc split: option.splits sum.splits)

lemma accumulates_handle_line_backend:
  "accumulates st \<Longrightarrow> accumulates (handle_line_backend parse st line)"
  by (cases st)
     (auto simp add: handle_line_backend_def Let_def accumulates_snoc split: option.splits sum.splits)

lemma accumulates_foldl:
  assumes "\<And>st line. accumulates st \<Longrightarrow> accumulates (h st line)"
  shows "accumulates st \<Longrightarrow> accumulates (foldl h st ls)"
  by (induction ls arbitrary: st) (simp_all add: assms)

lemma accumulates_read_loop:
  assumes step: "\<And>st line. accumulates st \<Longrightarrow> accumulates (h st line)"
  shows "accumulates (full, ds) \<Longrightarrow> read_loop h chunks (full, buf, ds) = (full', buf', ds')
         \<Longrightarrow> accumulates (full', ds')"
proof (induction chunks arbitrary: full buf ds)
  case Nil
  then show ?case by simp
next
  case (Cons c chunks)
  obtain popped ls where p: "pop (split (CHR 0x0A) (buf @ c)) = (popped, ls)"
    by (cases "pop (split (CHR 0x0A) (buf @ c))")
  obtain f1 d1 where f: "foldl h (full, ds) ls = (f1, d1)"
    by (cases "foldl h (full, ds) ls")
  have "accumulates (f1, d1)"
    using accumulates_foldl [of h "(full, ds)" ls] step Cons.prems(1) f by simp
  moreover have "read_loop h chunks
      (f1, (case popped of Some l \<Rightarrow> if l \<noteq> [] then l else [] | None \<Rightarrow> []), d1) = (full', buf', ds')"
    using Cons.prems(2) p f by (simp add: Let_def)
  ultimately show ?case using Cons.IH by blast
qed

lemma read_loop_accumulates:
  assumes "\<And>st line. accumulates st \<Longrightarrow> accumulates (h st line)"
    and "read_loop h chunks ([], [], []) = (full, buf, ds)"
  shows "accumulates (full, ds)"
proof -
  have "accumulates ([], [])" by (simp add: accumulates_def)
  then show ?thesis
    using accumulates_read_loop [of h "[]" "[]" chunks "[]" full buf ds] assms by blast
qed

lemma delivered_grow: "successively prefix (fst (handleStreamingResponse parse b))"
proof -
  obtain full buf ds where r: "read_loop (handle_line parse) (fst b) ([], [], []) = (full, buf, ds)"
    by (cases "read_loop (handle_line parse) (fst b) ([], [], [])")
  have "accumulates (full, ds)"
    using read_loop_accumulates [OF _ r] accumulates_handle_line by blast
  then show ?thesis
    using r by (simp add: handleStreamingResponse_def accumulates_def)
qed

lemma delivered_grow_backend:
  "successively prefix (fst (handleStreamingResponse_backend parse b))"
proof -
  obtain full buf ds where r:
    "read_loop (handle_line_backend parse) (fst b) ([], [], []) = (full, buf, ds)"
    by (cases "read_loop (handle_line_backend parse) (fst b) ([], [], [])")
  have "accumulates (full, ds)"
    using read_loop_accumulates [OF _ r] accumulates_handle_line_backend by blast
  then show ?thesis
    using r by (simp add: handleStreamingResponse_backend_def accumulates_def)
qed

lemma delivered_sendMessage:
  "fst (sendMessage parse fetch msgs settings memory ctl) = []
   \<or> (\<exists>b. fst (sendMessage parse fetch msgs settings memory ctl)
            = fst (handleStreamingResponse parse b))"
  by (auto simp add: sendMessage_def Let_def split_def split: sum.splits option.splits)

text \<open>
  C5. For a single streaming generation, whatever \<open>JSON.parse\<close> is and whatever the chunks
  are, each value passed to the per-delta callback is a prefix of the next one; and when the
  stream ends normally the function returns the last value it delivered, or the empty
  string if it delivered none. The values grow in the same way in the decoder of the
  backend client, and so do the values that \<open>sendMessage\<close> passes to its callback.
\<close>

theorem streaming_monotone:
  "successively prefix (fst (handleStreamingResponse parse b))
   \<and> (snd b = None \<longrightarrow>
        snd (handleStreamingResponse parse b) =
          Inr (if fst (handleStreamingResponse parse b) = [] then []
               else last (fst (handleStreamingResponse parse b))))
   \<and> successively prefix (fst (handleStreamingResponse_backend parse b))
   \<and> successively prefix (fst (sendMessage parse fetch msgs settings memory ctl))"
proof -
  obtain full buf ds where r: "read_loop (handle_line parse) (fst b) ([], [], []) = (full, buf, ds)"
    by (cases "read_loop (handle_line parse) (fst b) ([], [], [])")
  have "accumulates (full, ds)"
    using read_loop_accumulates [OF _ r] accumulates_handle_line by blast
  then have ret: "snd b = None \<longrightarrow>
        snd (handleStreamingResponse parse b) =
          Inr (if fst (handleStreamingResponse parse b) = [] then []
               else last (fst (handleStreamingResponse parse b)))"
    using r by (auto simp add: handleStreamingResponse_def accumulates_def split: if_splits)
  have sm: "successively prefix (fst (sendMessage parse fetch msgs settings memory ctl))"
    using delivered_sendMessage [of parse fetch msgs settings memory ctl] delivered_grow [of parse]
    by auto
  show ?thesis
    using delivered_grow [of parse b] ret delivered_grow_backend [of parse b] sm by blast
qed

theorem streaming_monotone_witness:
  "snd completion_frames = None
   \<and> fst (handleStreamingResponse JSON_parse completion_frames) = [''He'', ''Hello'']
   \<and> successively prefix (fst (handleStreamingResponse JSON_parse completion_frames))
   \<and> snd (handleStreamingResponse JSON_parse completion_frames) =
        Inr (if fst (handleStreamingResponse JSON_parse completion_frames) = [] then []
             else last (fst (handleStreamingResponse JSON_parse completion_frames)))"
proof -
  have h: "snd completion_frames = None" by (simp add: completion_frames_def)
  have v: "fst (handleStreamingResponse JSON_parse completion_frames) = [''He'', ''Hello'']"
    by code_simp
  from streaming_monotone [of JSON_parse completion_frames] h v show ?thesis by blast
qed

text \<open>
  C4, as stated, fails: the sentinel does not end the decoding. A data frame that follows
  \<open>data: [DONE]\<close> is parsed and delivered; and on the frames \<open>{"content": ...}\<close> of the example
  the decoder of src/lib/api.ts, which reads \<open>choices[0].delta.content\<close>, delivers nothing.
\<close>

theorem sentinel_does_not_end_decoding:
  "handleStreamingResponse JSON_parse frames_after_DONE = ([''late''], Inr ''late'')
   \<and> handleStreamingResponse JSON_parse backend_frames = ([], Inr [])"
  by code_simp

lemma handle_line_DONE:
  "startsWith line ''data: '' \<Longrightarrow> trim (drop 6 line) = ''[DONE]'' \<Longrightarrow> handle_line parse st line = st"
  by (cases st) (simp add: handle_line_def Let_def)

lemma handle_line_backend_DONE:
  "startsWith line ''data: '' \<Longrightarrow> trim (drop 6 line) = ''[DONE]''
   \<Longrightarrow> handle_line_backend parse st line = st"
  by (cases st) (simp add: handle_line_backend_def Let_def)

text \<open>
  C4, amended. A data line whose trimmed payload is \<open>[DONE]\<close> is skipped without error: it
  is not parsed, delivers nothing and leaves the accumulated text as it is, so the lines
  around it are decoded as if it were absent, lines after it included. Decoding goes on
  until the stream ends, and then the text accumulated so far is returned. On the frames
  \<open>data: {"content":"He"}\<close>, \<open>data: {"content":"llo"}\<close>, \<open>data: [DONE]\<close> the decoder of the
  backend client delivers \<open>He\<close> then \<open>Hello\<close> and returns \<open>Hello\<close>; the decoder of
  src/lib/api.ts does the same on frames of the shape \<open>{"choices":[{"delta":{"content":...}}]}\<close>.
\<close>

theorem sentinel_line_is_skipped:
  assumes "startsWith line ''data: ''" and "trim (drop 6 line) = ''[DONE]''"
  shows "foldl (handle_line parse) st (before @ line # after)
           = foldl (handle_line parse) st (before @ after)
       \<and> foldl (handle_line_backend parse) st (before @ line # after)
           = foldl (handle_line_backend parse) st (before @ after)
       \<and> snd (handleStreamingResponse parse (chunks, None))
           = Inr (fst (read_loop (handle_line parse) chunks ([], [], [])))
       \<and> snd (handleStreamingResponse_backend parse (chunks, None))
           = Inr (fst (read_loop (handle_line_backend parse) chunks ([], [], [])))
       \<and> handleStreamingResponse_backend JSON_parse backend_frames
           = ([''He'', ''Hello''], Inr ''Hello'')
       \<and> handleStreamingResponse JSON_parse completion_frames
           = ([''He'', ''Hello''], Inr ''Hello'')"
proof -
  have a: "foldl (handle_line parse) st (before @ line # after)
           = foldl (handle_line parse) st (before @ after)"
    using assms by (simp add: handle_line_DONE)
  have b: "foldl (handle_line_backend parse) st (before @ line # after)
           = foldl (handle_line_backend parse) st (before @ after)"
    using assms by (simp add: handle_line_backend_DONE)
  have c: "snd (handleStreamingResponse parse (chunks, None))
           = Inr (fst (read_loop (handle_line parse) chunks ([], [], [])))"
    by (simp add: handleStreamingResponse_def split: prod.splits)
  have d: "snd (handleStreamingResponse_backend parse (chunks, None))
           = Inr (fst (read_loop (handle_line_backend parse) chunks ([], [], [])))"
    by (simp add: handleStreamingResponse_backend_def split: prod.splits)
  have e: "handleStreamingResponse_backend JSON_parse backend_frames
           = ([''He'', ''Hello''], Inr ''Hello'')"
    by code_simp
  have f: "handleStreamingResponse JSON_parse completion_frames
           = ([''He'', ''Hello''], Inr ''Hello'')"
    by code_simp
  show ?thesis using a b c d e f by blast
qed

theorem sentinel_line_is_skipped_witness:
  \<open>startsWith (''data:  [DONE]'' @ [CR]) ''data: ''
   \<and> trim (drop 6 (''data:  [DONE]'' @ [CR])) = ''[DONE]''
   \<and> foldl (handle_line JSON_parse) ([], [])
        ([''data: {"choices":[{"delta":{"content":"He"}}]}''] @ (''data:  [DONE]'' @ [CR])
           # [''data: {"choices":[{"delta":{"content":"llo"}}]}''])
      = foldl (handle_line JSON_parse) ([], [])
          ([''data: {"choices":[{"delta":{"content":"He"}}]}'']
             @ [''data: {"choices":[{"delta":{"content":"llo"}}]}''])
   \<and> foldl (handle_line JSON_parse) ([], [])
          ([''data: {"choices":[{"delta":{"content":"He"}}]}'']
             @ [''data: {"choices":[{"delta":{"content":"llo"}}]}''])
      = (''Hello'', [''He'', ''Hello''])\<close>
proof -
  have h1: "startsWith (''data:  [DONE]'' @ [CR]) ''data: ''" by code_simp
  have h2: "trim (drop 6 (''data:  [DONE]'' @ [CR])) = ''[DONE]''" by code_simp
  have v: \<open>foldl (handle_line JSON_parse) ([], [])
          ([''data: {"choices":[{"delta":{"content":"He"}}]}'']
             @ [''data: {"choices":[{"delta":{"content":"llo"}}]}''])
      = (''Hello'', [''He'', ''Hello''])\<close> by code_simp
  from sentinel_line_is_skipped [OF h1 h2, of JSON_parse "([], [])"
      \<open>[''data: {"choices":[{"delta":{"content":"He"}}]}'']\<close>
      \<open>[''data: {"choices":[{"delta":{"content":"llo"}}]}'']\<close>] h1 h2 v
  show ?thesis by blast
qed

subsection \<open>Sending, and cancelling\<close>

lemma find_replace_chat_same:
  "\<exists>c\<in>set cs. id_chat c = id_chat ch
   \<Longrightarrow> find (\<lambda>c. id_chat c = id_chat ch) (replace_chat ch cs) = Some ch"
  by (induction cs) (auto simp add: replace_chat_def)

lemma find_replace_chat_other:
  "i \<noteq> id_chat ch
   \<Longrightarrow> find (\<lambda>c. id_chat c = i) (replace_chat ch cs) = find (\<lambda>c. id_chat c = i) cs"
  by (induction cs) (auto simp add: replace_chat_def)

lemma find_Some_in_set: "find P xs = Some x \<Longrightarrow> x \<in> set xs \<and> P x"
  by (induction xs) (auto split: if_splits)

lemma find_chat_Some: "find_chat chatId s = Some c \<Longrightarrow> c \<in> set (chats s) \<and> chatId = Some (id_chat c)"
  by (auto simp add: find_chat_def getChat_def split: option.splits if_splits dest: find_Some_in_set)

lemma start_found:
  assumes "find_chat chatId s = Some c"
  shows "fst (sendUserMessage_start chatId input s) =
           \<lparr>target = id_chat c, chat_sent = with_user_message c input s,
            newChats = replace_chat (with_user_message c input s) (chats s),
            controller = controllers_made s\<rparr>"
    and "chats (snd (sendUserMessage_start chatId input s)) = replace_chat (with_user_message c input s) (chats s)"
    and "stored_chats (snd (sendUserMessage_start chatId input s)) = replace_chat (with_user_message c input s) (chats s)"
    and "abortControllers (snd (sendUserMessage_start chatId input s)) = (abortControllers s)(id_chat c \<mapsto> controllers_made s)"
  using assms
  by (simp_all add: sendUserMessage_start_def Let_def split_def open_session_def with_user_message_def
        new_AbortController_def updateChatState_def persistChats_def generateId_def Date_now_def)

lemma start_new:
  assumes "find_chat chatId s = None"
  shows "target (fst (sendUserMessage_start chatId input s)) = id_source s (id_calls s)"
    and "id_chat (chat_sent (fst (sendUserMessage_start chatId input s))) = id_source s (id_calls s)"
    and "messages (chat_sent (fst (sendUserMessage_start chatId input s))) =
           [\<lparr>id_msg = id_source s (Suc (id_calls s)), role = User, content = input,
             timestamp = clock s (Suc (Suc (clock_calls s)))\<rparr>]"
    and "newChats (fst (sendUserMessage_start chatId input s)) =
           chat_sent (fst (sendUserMessage_start chatId input s))
             # replace_chat (chat_sent (fst (sendUserMessage_start chatId input s))) (chats s)"
    and "chats (snd (sendUserMessage_start chatId input s)) = newChats (fst (sendUserMessage_start chatId input s))"
    and "stored_chats (snd (sendUserMessage_start chatId input s)) = newChats (fst (sendUserMessage_start chatId input s))"
    and "abortControllers (snd (sendUserMessage_start chatId input s)) =
           (abortControllers s)(id_source s (id_calls s) \<mapsto> controllers_made s)"
    and "controller (fst (sendUserMessage_start chatId input s)) = controllers_made s"
  using assms
  by (simp_all add: sendUserMessage_start_def Let_def split_def open_session_def replace_chat_def
        new_AbortController_def updateChatState_def persistChats_def generateId_def Date_now_def)

lemma start_props:
  assumes "sendUserMessage_start chatId input s = (g, s1)"
  shows "chats s1 = newChats g \<and> stored_chats s1 = newChats g \<and> id_chat (chat_sent g) = target g
      \<and> getChat s1 (target g) = Some (chat_sent g)
      \<and> (\<exists>u. messages (chat_sent g) = prior_messages chatId s @ [u] \<and> role u = User
             \<and> content u = input)
      \<and> abortControllers s1 (target g) = Some (controller g)
      \<and> (\<exists>c\<in>set (newChats g). id_chat c = id_chat (chat_sent g))"
proof (cases "find_chat chatId s")
  case None
  have g: "g = fst (sendUserMessage_start chatId input s)"
    and s1: "s1 = snd (sendUserMessage_start chatId input s)"
    using assms by simp_all
  show ?thesis
    unfolding g s1 using start_new [OF None, of input]
    by (simp add: getChat_def prior_messages_def None)
next
  case (Some c)
  have g: "g = fst (sendUserMessage_start chatId input s)"
    and s1: "s1 = snd (sendUserMessage_start chatId input s)"
    using assms by simp_all
  have in_set: "\<exists>c'\<in>set (chats s). id_chat c' = id_chat (with_user_message c input s)"
    using find_chat_Some [OF Some] by (auto simp add: with_user_message_def)
  have idc: "id_chat (with_user_message c input s) = id_chat c"
    by (simp add: with_user_message_def)
  have in_new: "\<exists>c'\<in>set (replace_chat (with_user_message c input s) (chats s)).
      id_chat c' = id_chat (with_user_message c input s)"
    using in_set by (auto simp add: replace_chat_def)
  have msgs: "\<exists>u. messages (with_user_message c input s) = messages c @ [u] \<and> role u = User
      \<and> content u = input"
    by (simp add: with_user_message_def)
  show ?thesis
    unfolding g s1
    using start_found [OF Some, of input] find_replace_chat_same [OF in_set] in_new msgs
    by (simp add: getChat_def prior_messages_def Some idc)
qed

lemma onStream_fold_frame:
  "chats (foldl (\<lambda>s' t. onStream g t s') s ds) = chats s
   \<and> stored_chats (foldl (\<lambda>s' t. onStream g t s') s ds) = stored_chats s
   \<and> abortControllers (foldl (\<lambda>s' t. onStream g t s') s ds) = abortControllers s
   \<and> console (foldl (\<lambda>s' t. onStream g t s') s ds) = console s"
  by (induction ds arbitrary: s) (simp_all add: onStream_def updateChatState_def Let_def)

lemma await_frame:
  "chats (snd (await_sendMessage parse fetch settings memory g s)) = chats s
   \<and> stored_chats (snd (await_sendMessage parse fetch settings memory g s)) = stored_chats s
   \<and> abortControllers (snd (await_sendMessage parse fetch settings memory g s)) = abortControllers s
   \<and> console (snd (await_sendMessage parse fetch settings memory g s)) = console s
   \<and> fst (await_sendMessage parse fetch settings memory g s)
       = snd (sendMessage parse fetch (messages (chat_sent g)) settings memory (Some (controller g)))"
  by (simp add: await_sendMessage_def split_def Let_def onStream_fold_frame)

lemma settle_error:
  "chats (settle label g (Inl e) s) = chats s
   \<and> stored_chats (settle label g (Inl e) s) = stored_chats s
   \<and> console (settle label g (Inl e) s) = console s @ [(label, e)]
   \<and> abortControllers (settle label g (Inl e) s) = (abortControllers s)(target g := None)"
  by (simp add: settle_def updateChatState_def Let_def)

lemma settle_idle: "idle (settle label g r s) (target g)"
  by (simp add: idle_def getChatState_def chatStates_settle spread_ChatState_def loading_update_def)
     (simp add: settle_def Let_def updateChatState_def)

lemma settle_success:
  "chats (settle label g (Inr r) s) =
     replace_chat ((chat_sent g)
        \<lparr>messages := messages (chat_sent g) @
           [\<lparr>id_msg = id_source s (id_calls s), role = Assistant, content = r,
             timestamp = clock s (clock_calls s)\<rparr>],
         updatedAt := clock s (Suc (clock_calls s))\<rparr>) (newChats g)
   \<and> stored_chats (settle label g (Inr r) s) = chats (settle label g (Inr r) s)
   \<and> console (settle label g (Inr r) s) = console s"
  by (simp add: settle_def updateChatState_def Let_def split_def persistChats_def generateId_def
      Date_now_def)

lemma sendMessage_aborted:
  assumes "\<forall>req. aborts (fetch req)"
  shows "snd (sendMessage parse fetch msgs settings memory ctl)
           = Inl (JsError ''Error'' ''Request cancelled'')"
proof -
  define req where "req = \<lparr>url = baseUrl settings @ ''/v1/chat/completions'', model = ''local'',
      messages_req = (''system'', buildSystemPrompt settings memory)
         # map (\<lambda>m. (role_name (role m), content m)) msgs,
      temperature_req = temperature settings, max_tokens = maxTokens settings,
      stream = streamingEnabled settings, signal = ctl\<rparr>"
  have a: "aborts (fetch req)" using assms by simp
  show ?thesis
  proof (cases "fetch req")
    case (Inl e)
    then show ?thesis using a
      by (simp add: sendMessage_def Let_def req_def [symmetric] aborts_def)
  next
    case (Inr response)
    then obtain chunks e where b: "ok response" "body response = Some (chunks, Some e)"
      "err_name e = ''AbortError''"
      using a by (auto simp add: aborts_def split: option.splits prod.splits)
    show ?thesis using Inr b
      by (simp add: sendMessage_def Let_def req_def [symmetric] handleStreamingResponse_def
          response_json_def split_def)
  qed
qed

lemma hello_stream:
  "handleStreamingResponse JSON_parse completion_frames = ([''He'', ''Hello''], Inr ''Hello'')"
  by code_simp

lemma sendMessage_hello:
  "sendMessage JSON_parse hello_fetch msgs defaultSettings [] ctl
     = ([''He'', ''Hello''], Inr ''Hello'')"
  by (simp add: sendMessage_def hello_fetch_def defaultSettings_def Let_def hello_stream)

text \<open>
  A send that is cancelled while nothing else runs between its start and its end. Right
  after the user message was appended the conversation is \<open>chat_sent g\<close>: the messages it had
  before the send and the user message, one more than before. After the cancellation the
  conversation is still that chat, the stored chats are what they were, the promise resolves
  with the identifier, and the session is idle with empty streaming text. In any state, the
  part after the \<open>await\<close> changes no chat when the generation ended with an error.
\<close>

lemma cancelled_send_alone:
  assumes "\<forall>req. aborts (fetch req)"
  shows "(case sendUserMessage_start chatId input s of (g, s1) \<Rightarrow>
          (case sendUserMessage parse fetch settings memory chatId input s of (outcome, s') \<Rightarrow>
             outcome = Inr (target g)
             \<and> getChat s1 (target g) = Some (chat_sent g)
             \<and> (\<exists>u. messages (chat_sent g) = prior_messages chatId s @ [u] \<and> role u = User
                    \<and> content u = input)
             \<and> length (messages (chat_sent g)) = Suc (length (prior_messages chatId s))
             \<and> getChat s' (target g) = Some (chat_sent g)
             \<and> chats s' = chats s1 \<and> stored_chats s' = stored_chats s1
             \<and> idle s' (target g)))
       \<and> chats (snd (sendUserMessage_resume g' (Inl e) s2)) = chats s2
       \<and> stored_chats (snd (sendUserMessage_resume g' (Inl e) s2)) = stored_chats s2"
proof -
  have any: "chats (snd (sendUserMessage_resume g' (Inl e) s2)) = chats s2
       \<and> stored_chats (snd (sendUserMessage_resume g' (Inl e) s2)) = stored_chats s2"
    using settle_error [of "''Error sending message:''" g' e s2]
    by (simp add: sendUserMessage_resume_def)
  obtain g s1 where st: "sendUserMessage_start chatId input s = (g, s1)"
    by (cases "sendUserMessage_start chatId input s")
  obtain result s2' where aw: "await_sendMessage parse fetch settings memory g s1 = (result, s2')"
    by (cases "await_sendMessage parse fetch settings memory g s1")
  have res: "result = Inl (JsError ''Error'' ''Request cancelled'')"
    using await_frame [of parse fetch settings memory g s1] aw sendMessage_aborted [OF assms]
    by simp
  have s2': "chats s2' = chats s1" "stored_chats s2' = stored_chats s1"
    using await_frame [of parse fetch settings memory g s1] aw by simp_all
  have run: "sendUserMessage parse fetch settings memory chatId input s
      = (Inr (target g), settle ''Error sending message:'' g result s2')"
    by (simp add: sendUserMessage_def st aw sendUserMessage_resume_def)
  note p = start_props [OF st]
  have same: "getChat (settle ''Error sending message:'' g result s2') (target g) = getChat s1 (target g)"
    using settle_error [of "''Error sending message:''" g _ s2'] res s2' by (simp add: getChat_def)
  have "case sendUserMessage_start chatId input s of (g, s1) \<Rightarrow>
          (case sendUserMessage parse fetch settings memory chatId input s of (outcome, s') \<Rightarrow>
             outcome = Inr (target g)
             \<and> getChat s1 (target g) = Some (chat_sent g)
             \<and> (\<exists>u. messages (chat_sent g) = prior_messages chatId s @ [u] \<and> role u = User
                    \<and> content u = input)
             \<and> length (messages (chat_sent g)) = Suc (length (prior_messages chatId s))
             \<and> getChat s' (target g) = Some (chat_sent g)
             \<and> chats s' = chats s1 \<and> stored_chats s' = stored_chats s1
             \<and> idle s' (target g))"
    using p same settle_error [of "''Error sending message:''" g _ s2'] res s2'
      settle_idle [of "''Error sending message:''" g result s2']
    by (auto simp add: st run)
  then show ?thesis using any by blast
qed

lemma cancelled_send_alone_example:
  "(\<forall>req. aborts (aborted_fetch req))
   \<and> (case sendUserMessage_start (Some ''A'') ''q2'' chat_A_with_history of (g, s1) \<Rightarrow>
        (case sendUserMessage JSON_parse aborted_fetch defaultSettings [] (Some ''A'') ''q2''
                chat_A_with_history of (outcome, s') \<Rightarrow>
           outcome = Inr (target g)
           \<and> getChat s1 (target g) = Some (chat_sent g)
           \<and> (\<exists>u. messages (chat_sent g) = prior_messages (Some ''A'') chat_A_with_history @ [u]
                  \<and> role u = User \<and> content u = ''q2'')
           \<and> length (messages (chat_sent g))
               = Suc (length (prior_messages (Some ''A'') chat_A_with_history))
           \<and> getChat s' (target g) = Some (chat_sent g)
           \<and> chats s' = chats s1 \<and> stored_chats s' = stored_chats s1
           \<and> idle s' (target g)))
   \<and> chats (snd (sendUserMessage_resume generation_A
          (Inl (JsError ''Error'' ''Request cancelled'')) streaming_B)) = chats streaming_B
   \<and> stored_chats (snd (sendUserMessage_resume generation_A
          (Inl (JsError ''Error'' ''Request cancelled'')) streaming_B)) = stored_chats streaming_B
   \<and> fst (sendUserMessage JSON_parse aborted_fetch defaultSettings [] (Some ''A'') ''q2''
             chat_A_with_history) = Inr ''A''
   \<and> map_option (\<lambda>c. map content (messages c))
        (getChat (snd (sendUserMessage JSON_parse aborted_fetch defaultSettings [] (Some ''A'') ''q2''
             chat_A_with_history)) ''A'') = Some [''q1'', ''a1'', ''q2'']"
proof -
  have h: "\<forall>req. aborts (aborted_fetch req)"
    by (simp add: aborts_def aborted_fetch_def)
  have v1: "fst (sendUserMessage JSON_parse aborted_fetch defaultSettings [] (Some ''A'') ''q2''
             chat_A_with_history) = Inr ''A''"
    by code_simp
  have v2: "map_option (\<lambda>c. map content (messages c))
        (getChat (snd (sendUserMessage JSON_parse aborted_fetch defaultSettings [] (Some ''A'') ''q2''
             chat_A_with_history)) ''A'') = Some [''q1'', ''a1'', ''q2'']"
    by code_simp
  from cancelled_send_alone [OF h, where chatId = "Some ''A''" and input = "''q2''"
      and s = chat_A_with_history and parse = JSON_parse and settings = defaultSettings
      and memory = "[]" and g' = generation_A
      and e = "JsError ''Error'' ''Request cancelled''" and ?s2.0 = streaming_B] h v1 v2
  show ?thesis by (intro conjI) (elim conjE, assumption)+
qed

lemma sendMessage_aborted_fetch:
  "sendMessage parse aborted_fetch msgs settings memory ctl
     = ([], Inl (JsError ''Error'' ''Request cancelled''))"
  by (simp add: sendMessage_def aborted_fetch_def Let_def)

lemma chats_stopGeneration:
  "chats (stopGeneration chatId s) = chats s \<and> stored_chats (stopGeneration chatId s) = stored_chats s"
  by (simp add: stopGeneration_def updateChatState_def Let_def split: option.splits)

text \<open>
  A send that resolves writes back the list it built before its \<open>await\<close>
  (\<open>newChats.map(...)\<close>, then \<open>persistChats(finalChats)\<close>): whatever the state is when it
  resumes, every other conversation is afterwards what it was when that send started.
\<close>

lemma resolved_send_writes_back_its_list:
  assumes "sendUserMessage_start chatId input s = (g, s1)" and "i \<noteq> target g"
  shows "getChat (snd (sendUserMessage_resume g (Inr r) s')) i = getChat s i"
proof -
  have g: "g = fst (sendUserMessage_start chatId input s)" using assms(1) by simp
  have "find (\<lambda>c. id_chat c = i) (newChats g) = find (\<lambda>c. id_chat c = i) (chats s)"
  proof (cases "find_chat chatId s")
    case None
    show ?thesis
      using start_new [OF None, of input] assms(2) find_replace_chat_other [of i "chat_sent g" "chats s"]
      by (simp add: g)
  next
    case (Some c)
    have "id_chat (with_user_message c input s) = target g"
      using start_found(1) [OF Some, of input] by (simp add: g with_user_message_def)
    then show ?thesis
      using start_found(1) [OF Some, of input] assms(2)
        find_replace_chat_other [of i "with_user_message c input s" "chats s"]
      by (simp add: g)
  qed
  moreover have "id_chat ((chat_sent g)\<lparr>messages := ms, updatedAt := t\<rparr>) = target g" for ms t
    using start_props [OF assms(1)] by simp
  ultimately show ?thesis
    using settle_success [of "''Error sending message:''" g r s'] assms(2)
      find_replace_chat_other [of i _ "newChats g"]
    by (simp add: sendUserMessage_resume_def getChat_def)
qed

text \<open>
  C2. The claim fails on the manager when another send resolves while this one is
  suspended. In split view, with the empty chats \<open>A\<close> and \<open>B\<close>: a send starts on \<open>B\<close>, then a
  send of \<open>hi\<close> starts on \<open>A\<close>, whose conversation now holds the one message \<open>hi\<close>. The
  send on \<open>B\<close> resolves with \<open>Hello\<close> and writes back the list it captured before \<open>A\<close>'s send
  started: \<open>A\<close> is empty again. The generation on \<open>A\<close> is stopped and its request rejects as
  cancelled: no assistant message is committed, the promise resolves with \<open>A\<close> and the session
  is idle, but the conversation, in the state and in the store, has no message, not the
  one it had right after the user message was appended.
\<close>

theorem stale_write_back_drops_user_message:
  "(case sendUserMessage_start (Some ''B'') ''question'' two_chats of (gB, s1) \<Rightarrow>
    case sendUserMessage_start (Some ''A'') ''hi'' s1 of (gA, s2) \<Rightarrow>
    case await_sendMessage JSON_parse hello_fetch defaultSettings [] gB s2 of (rB, s3) \<Rightarrow>
    case sendUserMessage_resume gB rB s3 of (oB, s4) \<Rightarrow>
    case await_sendMessage JSON_parse aborted_fetch defaultSettings [] gA (stopGeneration ''A'' s4)
      of (rA, s5) \<Rightarrow>
    case sendUserMessage_resume gA rA s5 of (oA, s6) \<Rightarrow>
      map_option (\<lambda>c. map content (messages c)) (getChat two_chats ''A'') = Some []
      \<and> map_option (\<lambda>c. map content (messages c)) (getChat s2 ''A'') = Some [''hi'']
      \<and> rB = Inr ''Hello''
      \<and> map_option (\<lambda>c. map content (messages c)) (getChat s4 ''A'') = Some []
      \<and> rA = Inl (JsError ''Error'' ''Request cancelled'')
      \<and> oA = Inr ''A''
      \<and> map_option (\<lambda>c. map content (messages c)) (getChat s6 ''A'') = Some []
      \<and> map (\<lambda>c. (id_chat c, map content (messages c))) (stored_chats s6)
           = [(''A'', []), (''B'', [''question'', ''Hello''])]
      \<and> idle s6 ''A'')"
proof -
  obtain gB s1 where stB: "sendUserMessage_start (Some ''B'') ''question'' two_chats = (gB, s1)"
    by (cases "sendUserMessage_start (Some ''B'') ''question'' two_chats")
  obtain gA s2 where stA: "sendUserMessage_start (Some ''A'') ''hi'' s1 = (gA, s2)"
    by (cases "sendUserMessage_start (Some ''A'') ''hi'' s1")
  obtain rB s3 where awB: "await_sendMessage JSON_parse hello_fetch defaultSettings [] gB s2 = (rB, s3)"
    by (cases "await_sendMessage JSON_parse hello_fetch defaultSettings [] gB s2")
  obtain oB s4 where reB: "sendUserMessage_resume gB rB s3 = (oB, s4)"
    by (cases "sendUserMessage_resume gB rB s3")
  obtain rA s5 where awA: "await_sendMessage JSON_parse aborted_fetch defaultSettings [] gA
      (stopGeneration ''A'' s4) = (rA, s5)"
    by (cases "await_sendMessage JSON_parse aborted_fetch defaultSettings [] gA (stopGeneration ''A'' s4)")
  obtain oA s6 where reA: "sendUserMessage_resume gA rA s5 = (oA, s6)"
    by (cases "sendUserMessage_resume gA rA s5")
  have fB: "find_chat (Some ''B'') two_chats = Some (example_chat ''B'' [])"
    by (simp add: find_chat_def getChat_def two_chats_def initial_manager_def example_chat_def)
  have A0: "getChat two_chats ''A'' = Some (example_chat ''A'' [])"
    by (simp add: getChat_def two_chats_def initial_manager_def example_chat_def)
  have tB: "target gB = ''B''"
    using start_found(1) [OF fB, of "''question''"] stB by (simp add: example_chat_def)
  have c1: "chats s1 = [example_chat ''A'' [], chat_sent gB]"
    using start_found(1,2) [OF fB, of "''question''"] stB
    by (simp add: replace_chat_def two_chats_def initial_manager_def example_chat_def
        with_user_message_def)
  have mB: "map content (messages (chat_sent gB)) = [''question'']" and iB: "id_chat (chat_sent gB) = ''B''"
    using start_found(1) [OF fB, of "''question''"] stB
    by (simp_all add: with_user_message_def example_chat_def)
  have fA: "find_chat (Some ''A'') s1 = Some (example_chat ''A'' [])"
    by (simp add: find_chat_def getChat_def c1 example_chat_def)
  have tA: "target gA = ''A''"
    using start_found(1) [OF fA, of "''hi''"] stA by (simp add: example_chat_def)
  have A2: "map_option (\<lambda>c. map content (messages c)) (getChat s2 ''A'') = Some [''hi'']"
    using start_props [OF stA] by (auto simp add: tA prior_messages_def fA example_chat_def)
  have rB: "rB = Inr ''Hello''"
    using await_frame [of JSON_parse hello_fetch defaultSettings "[]" gB s2] awB
    by (simp add: sendMessage_hello)
  have s4: "s4 = snd (sendUserMessage_resume gB (Inr ''Hello'') s3)"
    using reB rB by simp
  have A4: "getChat s4 ''A'' = Some (example_chat ''A'' [])"
    using resolved_send_writes_back_its_list [OF stB, of "''A''" "''Hello''" s3] A0
    by (simp add: tB s4)
  have nB: "newChats gB = [example_chat ''A'' [], chat_sent gB]"
    using start_props [OF stB] c1 by simp
  have B4: "chats s4 = [example_chat ''A'' [],
      (chat_sent gB)\<lparr>messages := messages (chat_sent gB) @
           [\<lparr>id_msg = id_source s3 (id_calls s3), role = Assistant, content = ''Hello'',
             timestamp = clock s3 (clock_calls s3)\<rparr>],
         updatedAt := clock s3 (Suc (clock_calls s3))\<rparr>]"
    and st4: "stored_chats s4 = chats s4"
    using settle_success [of "''Error sending message:''" gB "''Hello''" s3]
    by (simp_all add: s4 sendUserMessage_resume_def replace_chat_def nB iB example_chat_def)
  have rA: "rA = Inl (JsError ''Error'' ''Request cancelled'')"
    using await_frame [of JSON_parse aborted_fetch defaultSettings "[]" gA "stopGeneration ''A'' s4"] awA
    by (simp add: sendMessage_aborted_fetch)
  have c5: "chats s5 = chats s4" "stored_chats s5 = stored_chats s4"
    using await_frame [of JSON_parse aborted_fetch defaultSettings "[]" gA "stopGeneration ''A'' s4"] awA
      chats_stopGeneration [of "''A''" s4]
    by simp_all
  have s6: "s6 = settle ''Error sending message:'' gA rA s5" and oA: "oA = Inr ''A''"
    using reA by (simp_all add: sendUserMessage_resume_def tA)
  have c6: "chats s6 = chats s4" "stored_chats s6 = chats s4"
    using settle_error [of "''Error sending message:''" gA _ s5] c5 st4 by (simp_all add: s6 rA)
  have A6: "getChat s6 ''A'' = Some (example_chat ''A'' [])"
    using A4 c6 by (simp add: getChat_def)
  have i6: "idle s6 ''A''"
    using settle_idle [of "''Error sending message:''" gA rA s5] by (simp add: s6 tA)
  have reB': "sendUserMessage_resume gB (Inr ''Hello'') s3 = (oB, s4)"
    using reB rB by simp
  have reA': "sendUserMessage_resume gA (Inl (JsError ''Error'' ''Request cancelled'')) s5 = (oA, s6)"
    using reA rA by simp
  have awB': "await_sendMessage JSON_parse hello_fetch defaultSettings [] gB s2 = (Inr ''Hello'', s3)"
    using awB rB by simp
  have awA': "await_sendMessage JSON_parse aborted_fetch defaultSettings [] gA
      (stopGeneration ''A'' s4) = (Inl (JsError ''Error'' ''Request cancelled''), s5)"
    using awA rA by simp
  have S6: "map (\<lambda>c. (id_chat c, map content (messages c))) (stored_chats s6)
           = [(''A'', []), (''B'', [''question'', ''Hello''])]"
    by (simp add: c6 B4 mB iB example_chat_def)
  show ?thesis
    using A0 A2 A4 oA A6 i6 S6
    by (simp add: stB stA awB' reB' awA' reA' example_chat_def)
qed

subsection \<open>The outcome of a generation\<close>

lemma settle_after_await_failure:
  assumes "snd (sendMessage parse fetch (messages (chat_sent g)) settings memory (Some (controller g))) = Inl e"
    and "await_sendMessage parse fetch settings memory g s1 = (result, s2)"
  shows "result = Inl e
       \<and> chats (settle label g result s2) = chats s1
       \<and> stored_chats (settle label g result s2) = stored_chats s1
       \<and> console (settle label g result s2) = console s1 @ [(label, e)]
       \<and> idle (settle label g result s2) (target g)"
  using assms await_frame [of parse fetch settings memory g s1] settle_error [of label g e s2]
    settle_idle [of label g result s2]
  by simp

lemma settle_after_await_success:
  assumes "snd (sendMessage parse fetch (messages (chat_sent g)) settings memory (Some (controller g))) = Inr r"
    and "await_sendMessage parse fetch settings memory g s1 = (result, s2)"
    and "\<exists>c\<in>set (newChats g). id_chat c = id_chat (chat_sent g)"
    and "id_chat (chat_sent g) = target g"
  shows "result = Inr r
       \<and> (\<exists>a. getChat (settle label g result s2) (target g)
                = Some ((chat_sent g)\<lparr>messages := messages (chat_sent g) @ [a],
                                      updatedAt := clock s2 (Suc (clock_calls s2))\<rparr>)
              \<and> role a = Assistant \<and> content a = r)
       \<and> stored_chats (settle label g result s2) = chats (settle label g result s2)
       \<and> console (settle label g result s2) = console s1
       \<and> idle (settle label g result s2) (target g)"
proof -
  have res: "result = Inr r"
    using assms(1,2) await_frame [of parse fetch settings memory g s1] by simp
  define a where "a = \<lparr>id_msg = id_source s2 (id_calls s2), role = Assistant, content = r,
             timestamp = clock s2 (clock_calls s2)\<rparr>"
  define final where "final = (chat_sent g)\<lparr>messages := messages (chat_sent g) @ [a],
                                      updatedAt := clock s2 (Suc (clock_calls s2))\<rparr>"
  have idf: "id_chat final = target g" using assms(4) by (simp add: final_def)
  have "\<exists>c\<in>set (newChats g). id_chat c = id_chat final"
    using assms(3) by (simp add: final_def)
  then have "find (\<lambda>c. id_chat c = id_chat final) (replace_chat final (newChats g)) = Some final"
    by (rule find_replace_chat_same)
  then have "getChat (settle label g result s2) (target g) = Some final"
    using settle_success [of label g r s2] res idf by (simp add: getChat_def final_def a_def)
  moreover have "role a = Assistant \<and> content a = r" by (simp add: a_def)
  ultimately show ?thesis
    using res settle_success [of label g r s2] settle_idle [of label g result s2]
      await_frame [of parse fetch settings memory g s1] assms(2)
    unfolding final_def by auto
qed

subsection \<open>Regenerating\<close>

lemma lastAssistantIndex_loop_none:
  "lastAssistantIndex_loop ms n = -1 \<longleftrightarrow> (\<forall>j<n. role (ms ! j) \<noteq> Assistant)"
  by (induction n) (auto simp add: less_Suc_eq)

lemma lastAssistantIndex_loop_found:
  "k < n \<Longrightarrow> role (ms ! k) = Assistant \<Longrightarrow> (\<forall>j. k < j \<and> j < n \<longrightarrow> role (ms ! j) \<noteq> Assistant)
   \<Longrightarrow> lastAssistantIndex_loop ms n = int k"
proof (induction n)
  case 0
  then show ?case by simp
next
  case (Suc n)
  show ?case
  proof (cases "k = n")
    case True
    then show ?thesis using Suc.prems by simp
  next
    case False
    then have "k < n" using Suc.prems by simp
    moreover have "role (ms ! n) \<noteq> Assistant" using Suc.prems \<open>k < n\<close> by simp
    ultimately show ?thesis using Suc by simp
  qed
qed

lemma lastAssistantIndex_loop_split:
  assumes "ms = before @ a # after" and "role a = Assistant"
    and "\<forall>m\<in>set after. role m \<noteq> Assistant"
  shows "lastAssistantIndex_loop ms (length ms) = int (length before)"
proof (rule lastAssistantIndex_loop_found)
  show "length before < length ms" using assms(1) by simp
  show "role (ms ! length before) = Assistant" using assms(1,2) by simp
  show "\<forall>j. length before < j \<and> j < length ms \<longrightarrow> role (ms ! j) \<noteq> Assistant"
  proof (intro allI impI)
    fix j assume j: "length before < j \<and> j < length ms"
    then have "ms ! j = after ! (j - Suc (length before))"
      using assms(1) by (simp add: nth_append nth_Cons')
    moreover have "j - Suc (length before) < length after" using j assms(1) by auto
    ultimately show "role (ms ! j) \<noteq> Assistant" using assms(3) by (metis nth_mem)
  qed
qed

lemma regenerate_start_none:
  "getChat s chatId = None \<or> (\<exists>chat. getChat s chatId = Some chat \<and>
      (length (messages chat) < 2 \<or> (\<forall>m\<in>set (messages chat). role m \<noteq> Assistant)))
   \<Longrightarrow> regenerateLastResponse_start chatId s = (None, s)"
proof (cases "getChat s chatId")
  case None
  then show ?thesis by (simp add: regenerateLastResponse_start_def)
next
  case (Some chat)
  assume "getChat s chatId = None \<or> (\<exists>chat. getChat s chatId = Some chat \<and>
      (length (messages chat) < 2 \<or> (\<forall>m\<in>set (messages chat). role m \<noteq> Assistant)))"
  then have "length (messages chat) < 2 \<or> (\<forall>m\<in>set (messages chat). role m \<noteq> Assistant)"
    using Some by simp
  then have "length (messages chat) < 2
     \<or> lastAssistantIndex_loop (messages chat) (length (messages chat)) = -1"
    by (auto simp add: lastAssistantIndex_loop_none)
  then show ?thesis using Some by (auto simp add: regenerateLastResponse_start_def Let_def)
qed

lemma regenerate_start_some:
  assumes "getChat s chatId = Some chat" and "2 \<le> length (messages chat)"
    and "messages chat = before @ a # after" and "role a = Assistant"
    and "\<forall>m\<in>set after. role m \<noteq> Assistant"
  shows "\<exists>g s1. regenerateLastResponse_start chatId s = (Some g, s1)
      \<and> target g = chatId \<and> id_chat (chat_sent g) = chatId
      \<and> messages (chat_sent g) = before
      \<and> chat_sent g = chat\<lparr>messages := before, updatedAt := clock s (clock_calls s)\<rparr>
      \<and> chats s1 = newChats g \<and> stored_chats s1 = newChats g
      \<and> getChat s1 chatId = Some (chat_sent g)
      \<and> console s1 = console s
      \<and> (\<exists>c\<in>set (newChats g). id_chat c = id_chat (chat_sent g))"
proof -
  have k: "lastAssistantIndex_loop (messages chat) (length (messages chat)) = int (length before)"
    using lastAssistantIndex_loop_split [OF assms(3,4,5)] .
  have inset: "chat \<in> set (chats s)" and idc: "id_chat chat = chatId"
    using assms(1) find_Some_in_set [of "\<lambda>c. id_chat c = chatId" "chats s" chat]
    by (simp_all add: getChat_def)
  define u where "u = chat\<lparr>messages := before, updatedAt := clock s (clock_calls s)\<rparr>"
  have "\<exists>c\<in>set (chats s). id_chat c = id_chat u" using inset by (auto simp add: u_def)
  then have f: "find (\<lambda>c. id_chat c = id_chat u) (replace_chat u (chats s)) = Some u"
    and m: "\<exists>c\<in>set (replace_chat u (chats s)). id_chat c = id_chat u"
    by (simp add: find_replace_chat_same, auto simp add: replace_chat_def)
  have idu: "id_chat u = chatId" using idc by (simp add: u_def)
  have tk: "take (length before) (messages chat) = before" using assms(3) by simp
  have mu: "messages u = before" by (simp add: u_def)
  show ?thesis
    using assms(1,2) k f m idu tk mu
    by (simp add: regenerateLastResponse_start_def Let_def split_def open_session_def
        new_AbortController_def updateChatState_def persistChats_def Date_now_def getChat_def
        u_def [symmetric])
qed

text \<open>
  C6, as stated, fails: in a conversation whose last assistant message is followed by a
  user message (a send that failed or was cancelled), regenerating removes both.
\<close>

theorem regenerate_removes_later_messages:
  "map_option (\<lambda>c. map content (messages c)) (getChat chat_A_unanswered ''A'')
     = Some [''q1'', ''a1'', ''q2'']
   \<and> map_option (\<lambda>c. map content (messages c))
       (getChat (snd (regenerateLastResponse JSON_parse hello_fetch defaultSettings [] ''A''
          chat_A_unanswered)) ''A'') = Some [''q1'', ''Hello'']"
  by code_simp

text \<open>
  C6, amended. In a conversation of at least two messages that contains an assistant
  message, \<open>regenerateLastResponse\<close> truncates the conversation at its last assistant
  message: that message and every message after it are removed (exactly one message when
  the assistant message is the last one), the messages \<open>before\<close> it are untouched, and on
  success exactly one new assistant message is appended; on failure none is. For an unknown
  conversation, one with fewer than two messages or one without an assistant message, the
  function changes nothing.
\<close>

theorem regenerate_truncates_at_last_assistant:
  "(getChat s chatId = Some chat \<and> 2 \<le> length (messages chat)
      \<and> messages chat = before @ a # after \<and> role a = Assistant
      \<and> (\<forall>m\<in>set after. role m \<noteq> Assistant) \<longrightarrow>
     (case regenerateLastResponse_start chatId s of
        (None, s1) \<Rightarrow> False
      | (Some g, s1) \<Rightarrow>
          (case regenerateLastResponse parse fetch settings memory chatId s of (outcome, s') \<Rightarrow>
             outcome = Inr ()
             \<and> map_option messages (getChat s1 chatId) = Some before
             \<and> (case snd (sendMessage parse fetch (messages (chat_sent g)) settings memory
                            (Some (controller g))) of
                  Inr r \<Rightarrow>
                    (\<exists>a'. role a' = Assistant \<and> content a' = r
                        \<and> map_option messages (getChat s' chatId) = Some (before @ [a']))
                | Inl e \<Rightarrow> map_option messages (getChat s' chatId) = Some before))))
   \<and> (getChat s chatId = None
        \<or> (\<exists>chat. getChat s chatId = Some chat
              \<and> (length (messages chat) < 2 \<or> (\<forall>m\<in>set (messages chat). role m \<noteq> Assistant)))
       \<longrightarrow> regenerateLastResponse parse fetch settings memory chatId s = (Inr (), s))"
proof (intro conjI impI)
  assume h: "getChat s chatId = Some chat \<and> 2 \<le> length (messages chat)
      \<and> messages chat = before @ a # after \<and> role a = Assistant
      \<and> (\<forall>m\<in>set after. role m \<noteq> Assistant)"
  then obtain g s1 where st: "regenerateLastResponse_start chatId s = (Some g, s1)"
    and p: "target g = chatId" "id_chat (chat_sent g) = chatId" "messages (chat_sent g) = before"
      "getChat s1 chatId = Some (chat_sent g)"
      "\<exists>c\<in>set (newChats g). id_chat c = id_chat (chat_sent g)"
      "chats s1 = newChats g"
    using regenerate_start_some [of s chatId chat before a after] by blast
  obtain result s2 where aw: "await_sendMessage parse fetch settings memory g s1 = (result, s2)"
    by (cases "await_sendMessage parse fetch settings memory g s1")
  have run: "regenerateLastResponse parse fetch settings memory chatId s
      = (Inr (), settle ''Error regenerating:'' g result s2)"
    by (simp add: regenerateLastResponse_def st aw regenerateLastResponse_resume_def)
  have "case snd (sendMessage parse fetch (messages (chat_sent g)) settings memory
                            (Some (controller g))) of
          Inr r \<Rightarrow>
            (\<exists>a'. role a' = Assistant \<and> content a' = r
                \<and> map_option messages (getChat (settle ''Error regenerating:'' g result s2) chatId)
                    = Some (before @ [a']))
        | Inl e \<Rightarrow> map_option messages (getChat (settle ''Error regenerating:'' g result s2) chatId)
                    = Some before"
  proof (cases "snd (sendMessage parse fetch (messages (chat_sent g)) settings memory
                            (Some (controller g)))")
    case (Inl e)
    have "chats (settle ''Error regenerating:'' g result s2) = chats s1"
      using settle_after_await_failure [OF Inl aw, of "''Error regenerating:''"] by blast
    then show ?thesis using Inl p by (simp add: getChat_def)
  next
    case (Inr r)
    show ?thesis
      using settle_after_await_success [OF Inr aw p(5), of "''Error regenerating:''"] p(1,2,3) Inr
      by auto
  qed
  then show "case regenerateLastResponse_start chatId s of
        (None, s1) \<Rightarrow> False
      | (Some g, s1) \<Rightarrow>
          (case regenerateLastResponse parse fetch settings memory chatId s of (outcome, s') \<Rightarrow>
             outcome = Inr ()
             \<and> map_option messages (getChat s1 chatId) = Some before
             \<and> (case snd (sendMessage parse fetch (messages (chat_sent g)) settings memory
                            (Some (controller g))) of
                  Inr r \<Rightarrow>
                    (\<exists>a'. role a' = Assistant \<and> content a' = r
                        \<and> map_option messages (getChat s' chatId) = Some (before @ [a']))
                | Inl e \<Rightarrow> map_option messages (getChat s' chatId) = Some before))"
    using p by (simp add: st run)
next
  assume "getChat s chatId = None
        \<or> (\<exists>chat. getChat s chatId = Some chat
              \<and> (length (messages chat) < 2 \<or> (\<forall>m\<in>set (messages chat). role m \<noteq> Assistant)))"
  then show "regenerateLastResponse parse fetch settings memory chatId s = (Inr (), s)"
    using regenerate_start_none [of s chatId] by (simp add: regenerateLastResponse_def)
qed

theorem regenerate_truncates_at_last_assistant_witness:
  "getChat chat_A_with_history ''A''
      = Some (example_chat ''A'' [user_message ''m1'' ''q1'', assistant_message ''m2'' ''a1''])
   \<and> 2 \<le> length (messages (example_chat ''A'' [user_message ''m1'' ''q1'', assistant_message ''m2'' ''a1'']))
   \<and> messages (example_chat ''A'' [user_message ''m1'' ''q1'', assistant_message ''m2'' ''a1''])
       = [user_message ''m1'' ''q1''] @ assistant_message ''m2'' ''a1'' # []
   \<and> role (assistant_message ''m2'' ''a1'') = Assistant
   \<and> (case regenerateLastResponse_start ''A'' chat_A_with_history of
        (None, s1) \<Rightarrow> False
      | (Some g, s1) \<Rightarrow>
          (case regenerateLastResponse JSON_parse hello_fetch defaultSettings [] ''A''
                  chat_A_with_history of (outcome, s') \<Rightarrow>
             outcome = Inr ()
             \<and> map_option messages (getChat s1 ''A'') = Some [user_message ''m1'' ''q1'']
             \<and> (case snd (sendMessage JSON_parse hello_fetch (messages (chat_sent g)) defaultSettings []
                            (Some (controller g))) of
                  Inr r \<Rightarrow>
                    (\<exists>a'. role a' = Assistant \<and> content a' = r
                        \<and> map_option messages (getChat s' ''A'')
                            = Some ([user_message ''m1'' ''q1''] @ [a']))
                | Inl e \<Rightarrow> map_option messages (getChat s' ''A'') = Some [user_message ''m1'' ''q1''])))
   \<and> map_option (\<lambda>c. map content (messages c))
       (getChat (snd (regenerateLastResponse JSON_parse hello_fetch defaultSettings [] ''A''
          chat_A_with_history)) ''A'') = Some [''q1'', ''Hello'']
   \<and> (\<exists>chat. getChat two_chats ''A'' = Some chat \<and> length (messages chat) < 2)
   \<and> regenerateLastResponse JSON_parse hello_fetch defaultSettings [] ''A'' two_chats
       = (Inr (), two_chats)"
proof -
  have h1: "getChat chat_A_with_history ''A''
      = Some (example_chat ''A'' [user_message ''m1'' ''q1'', assistant_message ''m2'' ''a1''])"
    by code_simp
  have h2: "2 \<le> length (messages (example_chat ''A'' [user_message ''m1'' ''q1'', assistant_message ''m2'' ''a1'']))"
    by (simp add: example_chat_def)
  have h3: "messages (example_chat ''A'' [user_message ''m1'' ''q1'', assistant_message ''m2'' ''a1''])
       = [user_message ''m1'' ''q1''] @ assistant_message ''m2'' ''a1'' # []"
    by (simp add: example_chat_def)
  have h4: "role (assistant_message ''m2'' ''a1'') = Assistant"
    by (simp add: assistant_message_def)
  have h5: "\<forall>m\<in>set []. role m \<noteq> Assistant" by simp
  have v: "map_option (\<lambda>c. map content (messages c))
       (getChat (snd (regenerateLastResponse JSON_parse hello_fetch defaultSettings [] ''A''
          chat_A_with_history)) ''A'') = Some [''q1'', ''Hello'']"
    by code_simp
  have n: "\<exists>chat. getChat two_chats ''A'' = Some chat \<and> length (messages chat) < 2"
    by (simp add: getChat_def two_chats_def initial_manager_def example_chat_def)
  note t = regenerate_truncates_at_last_assistant [where s = chat_A_with_history and chatId = "''A''"
      and chat = "example_chat ''A'' [user_message ''m1'' ''q1'', assistant_message ''m2'' ''a1'']"
      and before = "[user_message ''m1'' ''q1'']" and a = "assistant_message ''m2'' ''a1''"
      and after = "[]" and parse = JSON_parse and fetch = hello_fetch
      and settings = defaultSettings and memory = "[]"]
  note t2 = regenerate_truncates_at_last_assistant [where s = two_chats and chatId = "''A''"
      and parse = JSON_parse and fetch = hello_fetch and settings = defaultSettings and memory = "[]"]
  have pre: "getChat chat_A_with_history ''A''
      = Some (example_chat ''A'' [user_message ''m1'' ''q1'', assistant_message ''m2'' ''a1''])
      \<and> 2 \<le> length (messages (example_chat ''A'' [user_message ''m1'' ''q1'', assistant_message ''m2'' ''a1'']))
      \<and> messages (example_chat ''A'' [user_message ''m1'' ''q1'', assistant_message ''m2'' ''a1''])
          = [user_message ''m1'' ''q1''] @ assistant_message ''m2'' ''a1'' # []
      \<and> role (assistant_message ''m2'' ''a1'') = Assistant
      \<and> (\<forall>m\<in>set []. role m \<noteq> Assistant)"
    using h1 h2 h3 h4 h5 by (intro conjI)
  have a: "case regenerateLastResponse_start ''A'' chat_A_with_history of
        (None, s1) \<Rightarrow> False
      | (Some g, s1) \<Rightarrow>
          (case regenerateLastResponse JSON_parse hello_fetch defaultSettings [] ''A''
                  chat_A_with_history of (outcome, s') \<Rightarrow>
             outcome = Inr ()
             \<and> map_option messages (getChat s1 ''A'') = Some [user_message ''m1'' ''q1'']
             \<and> (case snd (sendMessage JSON_parse hello_fetch (messages (chat_sent g)) defaultSettings []
                            (Some (controller g))) of
                  Inr r \<Rightarrow>
                    (\<exists>a'. role a' = Assistant \<and> content a' = r
                        \<and> map_option messages (getChat s' ''A'')
                            = Some ([user_message ''m1'' ''q1''] @ [a']))
                | Inl e \<Rightarrow> map_option messages (getChat s' ''A'') = Some [user_message ''m1'' ''q1'']))"
    using t [THEN conjunct1, THEN mp, OF pre] .
  have n': "getChat two_chats ''A'' = None
        \<or> (\<exists>chat. getChat two_chats ''A'' = Some chat
              \<and> (length (messages chat) < 2 \<or> (\<forall>m\<in>set (messages chat). role m \<noteq> Assistant)))"
    using n by blast
  have b: "regenerateLastResponse JSON_parse hello_fetch defaultSettings [] ''A'' two_chats
       = (Inr (), two_chats)"
    using t2 [THEN conjunct2, THEN mp, OF n'] .
  from h1 h2 h3 h4 a v n b show ?thesis by (intro conjI)
qed

subsection \<open>Editing and resending\<close>









subsection \<open>Failures of the endpoint\<close>

lemma sendMessage_status_500:
  "sendMessage parse status_500_fetch msgs settings memory ctl
     = ([], Inl (JsError ''Error'' ''HTTP error! status: 500''))"
proof -
  have "nat_to_string 500 = ''500''" by code_simp
  then show ?thesis by (simp add: sendMessage_def status_500_fetch_def Let_def)
qed

lemma sendMessage_offline:
  "sendMessage parse offline_fetch msgs settings memory ctl
     = ([], Inl (JsError ''TypeError'' ''Failed to fetch''))"
  by (simp add: sendMessage_def offline_fetch_def Let_def)

text \<open>
  C3, as stated, fails: \<open>sendMessage\<close> rejects on a status 500 and on a failure of the
  network, but the promises of \<open>sendUserMessage\<close>, \<open>regenerateLastResponse\<close> and
  \<open>editAndResend\<close> resolve; the error goes to \<open>console.error\<close>.
\<close>

theorem failure_does_not_reach_the_caller:
  "snd (sendMessage JSON_parse status_500_fetch [user_message ''m1'' ''q1''] defaultSettings []
          (Some 0))
     = Inl (JsError ''Error'' ''HTTP error! status: 500'')
   \<and> fst (sendUserMessage JSON_parse status_500_fetch defaultSettings [] (Some ''A'') ''q2''
         chat_A_with_history) = Inr ''A''
   \<and> console (snd (sendUserMessage JSON_parse status_500_fetch defaultSettings [] (Some ''A'') ''q2''
         chat_A_with_history))
       = [(''Error sending message:'', JsError ''Error'' ''HTTP error! status: 500'')]
   \<and> fst (sendUserMessage JSON_parse offline_fetch defaultSettings [] (Some ''A'') ''q2''
         chat_A_with_history) = Inr ''A''
   \<and> console (snd (sendUserMessage JSON_parse offline_fetch defaultSettings [] (Some ''A'') ''q2''
         chat_A_with_history))
       = [(''Error sending message:'', JsError ''TypeError'' ''Failed to fetch'')]
   \<and> fst (regenerateLastResponse JSON_parse status_500_fetch defaultSettings [] ''A''
         chat_A_with_history) = Inr ()
   \<and> fst (editAndResend JSON_parse status_500_fetch defaultSettings [] ''A'' ''m1'' ''q1 again''
         chat_A_with_history) = Inr ()"
  by (simp add: sendUserMessage_def sendUserMessage_start_def sendUserMessage_resume_def
      regenerateLastResponse_def regenerateLastResponse_start_def regenerateLastResponse_resume_def
      editAndResend_def editAndResend_start_def editAndResend_resume_def find_chat_def
      await_sendMessage_def sendMessage_status_500 sendMessage_offline settle_def onStream_def
      chat_A_with_history_def initial_manager_def example_chat_def user_message_def
      assistant_message_def getChat_def findIndex_def Let_def split_def Date_now_def
      generateId_def persistChats_def open_session_def new_AbortController_def
      updateChatState_def replace_chat_def numeral_2_eq_2)

lemma sendMessage_fails:
  assumes "\<forall>req. fails_with (fetch req) e"
  shows "snd (sendMessage parse fetch msgs settings memory ctl) = Inl e"
proof -
  define req where "req = \<lparr>url = baseUrl settings @ ''/v1/chat/completions'', model = ''local'',
      messages_req = (''system'', buildSystemPrompt settings memory)
         # map (\<lambda>m. (role_name (role m), content m)) msgs,
      temperature_req = temperature settings, max_tokens = maxTokens settings,
      stream = streamingEnabled settings, signal = ctl\<rparr>"
  have a: "fails_with (fetch req) e" using assms by simp
  show ?thesis
  proof (cases "fetch req")
    case (Inl x)
    then show ?thesis using a
      by (simp add: sendMessage_def Let_def req_def [symmetric] fails_with_def)
  next
    case (Inr response)
    then show ?thesis using a
      by (simp add: sendMessage_def Let_def req_def [symmetric] fails_with_def)
  qed
qed

lemma console_sendUserMessage_start:
  "console (snd (sendUserMessage_start chatId input s)) = console s"
  by (simp add: sendUserMessage_start_def Let_def split_def open_session_def
      new_AbortController_def updateChatState_def persistChats_def generateId_def Date_now_def
      split: option.splits)

text \<open>
  C3, amended. When the endpoint returns a status that is no success or the network fails,
  \<open>sendMessage\<close> rejects with the failure, and the manager catches and logs it: the promise of
  \<open>sendUserMessage\<close> resolves with the conversation identifier, those of
  \<open>regenerateLastResponse\<close> and \<open>editAndResend\<close> resolve too, the loading state is cleared
  (the session is idle), the chats in the state and in the store are what they were when
  the request was sent, and no assistant message is appended.
\<close>

theorem failure_is_caught_by_the_manager:
  assumes "\<forall>req. fails_with (fetch req) e"
  shows "snd (sendMessage parse fetch msgs settings memory ctl) = Inl e
     \<and> (case sendUserMessage_start chatId input s of (g, s1) \<Rightarrow>
          (case sendUserMessage parse fetch settings memory chatId input s of (outcome, s') \<Rightarrow>
             outcome = Inr (target g)
             \<and> chats s' = chats s1 \<and> stored_chats s' = stored_chats s1
             \<and> console s' = console s @ [(''Error sending message:'', e)]
             \<and> idle s' (target g)))
     \<and> (case regenerateLastResponse_start chatId' s of
          (None, s1) \<Rightarrow> True
        | (Some g, s1) \<Rightarrow>
            (case regenerateLastResponse parse fetch settings memory chatId' s of (outcome, s') \<Rightarrow>
               outcome = Inr ()
               \<and> chats s' = chats s1 \<and> stored_chats s' = stored_chats s1
               \<and> console s' = console s1 @ [(''Error regenerating:'', e)]
               \<and> idle s' (target g)))
     \<and> (case editAndResend_start chatId' messageId newContent s of
          (None, s1) \<Rightarrow> True
        | (Some g, s1) \<Rightarrow>
            (case editAndResend parse fetch settings memory chatId' messageId newContent s of
               (outcome, s') \<Rightarrow>
                 outcome = Inr ()
                 \<and> chats s' = chats s1 \<and> stored_chats s' = stored_chats s1
                 \<and> console s' = console s1 @ [(''Error editing and resending:'', e)]
                 \<and> idle s' (target g)))"
proof -
  note f = sendMessage_fails [OF assms]
  have gen: "chats (settle label g result s2) = chats s1
       \<and> stored_chats (settle label g result s2) = stored_chats s1
       \<and> console (settle label g result s2) = console s1 @ [(label, e)]
       \<and> idle (settle label g result s2) (target g)"
    if "await_sendMessage parse fetch settings memory g s1 = (result, s2)" for label g result s1 s2
    using settle_after_await_failure [OF f that, of label] by blast
  have a: "case sendUserMessage_start chatId input s of (g, s1) \<Rightarrow>
          (case sendUserMessage parse fetch settings memory chatId input s of (outcome, s') \<Rightarrow>
             outcome = Inr (target g)
             \<and> chats s' = chats s1 \<and> stored_chats s' = stored_chats s1
             \<and> console s' = console s @ [(''Error sending message:'', e)]
             \<and> idle s' (target g))"
  proof -
    obtain g s1 where st: "sendUserMessage_start chatId input s = (g, s1)"
      by (cases "sendUserMessage_start chatId input s")
    obtain result s2 where aw: "await_sendMessage parse fetch settings memory g s1 = (result, s2)"
      by (cases "await_sendMessage parse fetch settings memory g s1")
    have c: "console s1 = console s"
      using console_sendUserMessage_start [of chatId input s] st by simp
    show ?thesis
      using gen [OF aw, of "''Error sending message:''"] c
      by (simp add: st sendUserMessage_def aw sendUserMessage_resume_def)
  qed
  have b: "case regenerateLastResponse_start chatId' s of
          (None, s1) \<Rightarrow> True
        | (Some g, s1) \<Rightarrow>
            (case regenerateLastResponse parse fetch settings memory chatId' s of (outcome, s') \<Rightarrow>
               outcome = Inr ()
               \<and> chats s' = chats s1 \<and> stored_chats s' = stored_chats s1
               \<and> console s' = console s1 @ [(''Error regenerating:'', e)]
               \<and> idle s' (target g))"
  proof (cases "regenerateLastResponse_start chatId' s")
    case (Pair og s1)
    show ?thesis
    proof (cases og)
      case None
      then show ?thesis using Pair by simp
    next
      case (Some g)
      obtain result s2 where aw: "await_sendMessage parse fetch settings memory g s1 = (result, s2)"
        by (cases "await_sendMessage parse fetch settings memory g s1")
      show ?thesis
        using gen [OF aw, of "''Error regenerating:''"]
        by (simp add: Pair Some regenerateLastResponse_def aw regenerateLastResponse_resume_def)
    qed
  qed
  have c: "case editAndResend_start chatId' messageId newContent s of
          (None, s1) \<Rightarrow> True
        | (Some g, s1) \<Rightarrow>
            (case editAndResend parse fetch settings memory chatId' messageId newContent s of
               (outcome, s') \<Rightarrow>
                 outcome = Inr ()
                 \<and> chats s' = chats s1 \<and> stored_chats s' = stored_chats s1
                 \<and> console s' = console s1 @ [(''Error editing and resending:'', e)]
                 \<and> idle s' (target g))"
  proof (cases "editAndResend_start chatId' messageId newContent s")
    case (Pair og s1)
    show ?thesis
    proof (cases og)
      case None
      then show ?thesis using Pair by simp
    next
      case (Some g)
      obtain result s2 where aw: "await_sendMessage parse fetch settings memory g s1 = (result, s2)"
        by (cases "await_sendMessage parse fetch settings memory g s1")
      show ?thesis
        using gen [OF aw, of "''Error editing and resending:''"]
        by (simp add: Pair Some editAndResend_def aw editAndResend_resume_def)
    qed
  qed
  show ?thesis using f a b c by (intro conjI)
qed

theorem failure_is_caught_by_the_manager_witness:
  "(\<forall>req. fails_with (status_500_fetch req) (JsError ''Error'' ''HTTP error! status: 500''))
   \<and> snd (sendMessage JSON_parse status_500_fetch [user_message ''m1'' ''q1''] defaultSettings []
          (Some 0)) = Inl (JsError ''Error'' ''HTTP error! status: 500'')
   \<and> (case sendUserMessage_start (Some ''A'') ''q2'' chat_A_with_history of (g, s1) \<Rightarrow>
          (case sendUserMessage JSON_parse status_500_fetch defaultSettings [] (Some ''A'') ''q2''
                  chat_A_with_history of (outcome, s') \<Rightarrow>
             outcome = Inr (target g)
             \<and> chats s' = chats s1 \<and> stored_chats s' = stored_chats s1
             \<and> console s' = console chat_A_with_history
                  @ [(''Error sending message:'', JsError ''Error'' ''HTTP error! status: 500'')]
             \<and> idle s' (target g)))
   \<and> (case regenerateLastResponse_start ''A'' chat_A_with_history of
          (None, s1) \<Rightarrow> True
        | (Some g, s1) \<Rightarrow>
            (case regenerateLastResponse JSON_parse status_500_fetch defaultSettings [] ''A''
                    chat_A_with_history of (outcome, s') \<Rightarrow>
               outcome = Inr ()
               \<and> chats s' = chats s1 \<and> stored_chats s' = stored_chats s1
               \<and> console s' = console s1
                    @ [(''Error regenerating:'', JsError ''Error'' ''HTTP error! status: 500'')]
               \<and> idle s' (target g)))
   \<and> (case editAndResend_start ''A'' ''m1'' ''q1 again'' chat_A_with_history of
          (None, s1) \<Rightarrow> True
        | (Some g, s1) \<Rightarrow>
            (case editAndResend JSON_parse status_500_fetch defaultSettings [] ''A'' ''m1''
                    ''q1 again'' chat_A_with_history of
               (outcome, s') \<Rightarrow>
                 outcome = Inr ()
                 \<and> chats s' = chats s1 \<and> stored_chats s' = stored_chats s1
                 \<and> console s' = console s1
                      @ [(''Error editing and resending:'',
                          JsError ''Error'' ''HTTP error! status: 500'')]
                 \<and> idle s' (target g)))
   \<and> map_option (\<lambda>c. map content (messages c))
        (getChat (snd (sendUserMessage JSON_parse status_500_fetch defaultSettings [] (Some ''A'')
           ''q2'' chat_A_with_history)) ''A'') = Some [''q1'', ''a1'', ''q2'']"
proof -
  have n: "nat_to_string 500 = ''500''" by code_simp
  have h: "\<forall>req. fails_with (status_500_fetch req) (JsError ''Error'' ''HTTP error! status: 500'')"
    by (simp add: fails_with_def status_500_fetch_def n)
  have v: "map_option (\<lambda>c. map content (messages c))
        (getChat (snd (sendUserMessage JSON_parse status_500_fetch defaultSettings [] (Some ''A'')
           ''q2'' chat_A_with_history)) ''A'') = Some [''q1'', ''a1'', ''q2'']"
    by (simp add: sendUserMessage_def sendUserMessage_start_def sendUserMessage_resume_def
        find_chat_def await_sendMessage_def sendMessage_status_500 settle_def onStream_def
        chat_A_with_history_def initial_manager_def example_chat_def user_message_def
        assistant_message_def getChat_def Let_def split_def Date_now_def
        generateId_def persistChats_def open_session_def new_AbortController_def
        updateChatState_def replace_chat_def)
  note t = failure_is_caught_by_the_manager [OF h, where parse = JSON_parse
      and msgs = "[user_message ''m1'' ''q1'']" and settings = defaultSettings and memory = "[]"
      and ctl = "Some 0" and chatId = "Some ''A''" and input = "''q2''"
      and s = chat_A_with_history and chatId' = "''A''" and messageId = "''m1''"
      and newContent = "''q1 again''"]
  from h t v show ?thesis by (intro conjI) (elim conjE, assumption)+
qed

subsection \<open>The response without streaming\<close>

lemma sendMessage_json:
  "sendMessage JSON_parse (json_fetch t) msgs settings_without_streaming memory ctl =
     ([], case JSON_parse t of None \<Rightarrow> Inl SyntaxError
          | Some data \<Rightarrow>
              (case message_content data of
                 Inl e \<Rightarrow> if err_name e = ''AbortError''
                          then Inl (JsError ''Error'' ''Request cancelled'') else Inl e
               | Inr r \<Rightarrow> Inr r))"
  by (simp add: sendMessage_def json_fetch_def settings_without_streaming_def defaultSettings_def
      Let_def response_json_def SyntaxError_def split: option.splits sum.splits)

lemma parse_empty_object: "JSON_parse ''{}'' = Some (JObj [])"
  by code_simp

lemma message_content_empty_object: "message_content (JObj []) = Inl TypeError"
  by (simp add: message_content_def)

text \<open>
  C10, as stated, fails: on the body \<open>{}\<close>, which has no \<open>choices\<close>, the plain access
  \<open>data.choices[0]\<close> throws a TypeError. \<open>sendMessage\<close> rejects with it, and the manager commits
  no assistant message: the conversation keeps the user message only.
\<close>

theorem missing_choices_raises:
  "snd (sendMessage JSON_parse (json_fetch ''{}'') [user_message ''m1'' ''q1'']
          settings_without_streaming [] (Some 0)) = Inl TypeError
   \<and> map_option (\<lambda>c. map content (messages c))
        (getChat (snd (sendUserMessage JSON_parse (json_fetch ''{}'') settings_without_streaming []
           (Some ''A'') ''q1'' two_chats)) ''A'') = Some [''q1'']"
  by (simp add: sendMessage_json parse_empty_object message_content_empty_object TypeError_def
      sendUserMessage_def sendUserMessage_start_def sendUserMessage_resume_def
      find_chat_def await_sendMessage_def settle_def onStream_def
      two_chats_def initial_manager_def example_chat_def getChat_def Let_def split_def
      Date_now_def generateId_def persistChats_def open_session_def new_AbortController_def
      updateChatState_def replace_chat_def)

lemma optional_get_prop:
  "optional e (get_prop key) = (case e of None \<Rightarrow> None | Some v \<Rightarrow> get_prop key v)"
proof (cases e)
  case None
  then show ?thesis by simp
next
  case (Some v)
  then show ?thesis by (cases v) simp_all
qed

lemma member_get_prop:
  "get_prop key v = Some x \<Longrightarrow> member (Some v) (get_prop key) = Inr (Some x)"
  by (cases v) simp_all

lemma message_content_lacks_text: "lacks_text data \<Longrightarrow> message_content data = Inr []"
  by (auto simp add: lacks_text_def message_content_def or_empty_def optional_get_prop
      member_get_prop split: option.splits json.splits list.splits)

lemma sendMessage_without_streaming:
  assumes "\<not> streamingEnabled settings" and "\<forall>req. fetch req = Inr response" and "ok response"
    and "response_json parse response = Inr data"
  shows "sendMessage parse fetch msgs settings memory ctl
           = ([], case message_content data of
                    Inl e \<Rightarrow> if err_name e = ''AbortError''
                             then Inl (JsError ''Error'' ''Request cancelled'') else Inl e
                  | Inr r \<Rightarrow> Inr r)"
  using assms
  by (simp add: sendMessage_def Let_def split: option.splits sum.splits)

text \<open>
  C10, amended. When streaming is disabled and the endpoint returns a success status with a
  body that has a \<open>choices\<close> array, extraction does not raise: if the array is empty, or its
  first element lacks the \<open>message\<close>, or the message lacks the \<open>content\<close>, \<open>sendMessage\<close>
  returns the empty string, and the manager then commits a durable assistant message whose
  content is the empty string.
\<close>

theorem empty_text_is_committed:
  assumes "\<not> streamingEnabled settings" and "\<forall>req. fetch req = Inr response" and "ok response"
    and "response_json parse response = Inr data" and "lacks_text data"
  shows "sendMessage parse fetch msgs settings memory ctl = ([], Inr [])
     \<and> (case sendUserMessage_start chatId input s of (g, s1) \<Rightarrow>
          (case sendUserMessage parse fetch settings memory chatId input s of (outcome, s') \<Rightarrow>
             outcome = Inr (target g)
             \<and> (\<exists>a. role a = Assistant \<and> content a = []
                    \<and> map_option messages (getChat s' (target g))
                        = Some (messages (chat_sent g) @ [a]))
             \<and> stored_chats s' = chats s'))"
proof -
  have sm: "sendMessage parse fetch msgs' settings memory ctl' = ([], Inr [])" for msgs' ctl'
    using sendMessage_without_streaming [OF assms(1-4)] message_content_lacks_text [OF assms(5)]
    by simp
  obtain g s1 where st: "sendUserMessage_start chatId input s = (g, s1)"
    by (cases "sendUserMessage_start chatId input s")
  obtain result s2 where aw: "await_sendMessage parse fetch settings memory g s1 = (result, s2)"
    by (cases "await_sendMessage parse fetch settings memory g s1")
  have r: "snd (sendMessage parse fetch (messages (chat_sent g)) settings memory
      (Some (controller g))) = Inr []"
    by (simp add: sm)
  note p = start_props [OF st]
  have "\<exists>c\<in>set (newChats g). id_chat c = id_chat (chat_sent g)"
    and "id_chat (chat_sent g) = target g"
    using p by blast+
  from settle_after_await_success [OF r aw this, of "''Error sending message:''"]
  have "(\<exists>a. role a = Assistant \<and> content a = []
           \<and> map_option messages (getChat (settle ''Error sending message:'' g result s2) (target g))
               = Some (messages (chat_sent g) @ [a]))
        \<and> stored_chats (settle ''Error sending message:'' g result s2)
            = chats (settle ''Error sending message:'' g result s2)"
    by auto
  then show ?thesis
    by (simp add: sm st sendUserMessage_def aw sendUserMessage_resume_def)
qed

theorem empty_text_is_committed_witness:
  \<open>\<not> streamingEnabled settings_without_streaming
   \<and> (\<forall>req. json_fetch no_content_body req = Inr no_content_response)
   \<and> ok no_content_response
   \<and> response_json JSON_parse no_content_response = Inr no_content_data
   \<and> lacks_text no_content_data
   \<and> sendMessage JSON_parse (json_fetch no_content_body) [user_message ''m1'' ''q1'']
        settings_without_streaming [] (Some 0) = ([], Inr [])
   \<and> (case sendUserMessage_start (Some ''A'') ''q1'' two_chats of (g, s1) \<Rightarrow>
        (case sendUserMessage JSON_parse (json_fetch no_content_body) settings_without_streaming []
                (Some ''A'') ''q1'' two_chats of (outcome, s') \<Rightarrow>
           outcome = Inr (target g)
           \<and> (\<exists>a. role a = Assistant \<and> content a = []
                  \<and> map_option messages (getChat s' (target g))
                      = Some (messages (chat_sent g) @ [a]))
           \<and> stored_chats s' = chats s'))
   \<and> JSON_parse ''{"choices":[]}'' = Some (JObj [(''choices'', JArr [])])
   \<and> lacks_text (JObj [(''choices'', JArr [])])
   \<and> JSON_parse ''{"choices":[{}]}'' = Some (JObj [(''choices'', JArr [JObj []])])
   \<and> lacks_text (JObj [(''choices'', JArr [JObj []])])\<close>
proof -
  have h1: "\<not> streamingEnabled settings_without_streaming"
    by (simp add: settings_without_streaming_def)
  have h2: "\<forall>req. json_fetch no_content_body req = Inr no_content_response"
    by (simp add: json_fetch_def no_content_response_def)
  have h3: "ok no_content_response" by (simp add: no_content_response_def)
  have p: "JSON_parse no_content_body = Some no_content_data" by code_simp
  have h4: "response_json JSON_parse no_content_response = Inr no_content_data"
    by (simp add: response_json_def no_content_response_def p)
  have h5: "lacks_text no_content_data" by (simp add: lacks_text_def no_content_data_def)
  have e1: \<open>JSON_parse ''{"choices":[]}'' = Some (JObj [(''choices'', JArr [])])\<close> by code_simp
  have e2: "lacks_text (JObj [(''choices'', JArr [])])" by (simp add: lacks_text_def)
  have e3: \<open>JSON_parse ''{"choices":[{}]}'' = Some (JObj [(''choices'', JArr [JObj []])])\<close>
    by code_simp
  have e4: "lacks_text (JObj [(''choices'', JArr [JObj []])])" by (simp add: lacks_text_def)
  note t = empty_text_is_committed [OF h1 h2 h3 h4 h5, where msgs = "[user_message ''m1'' ''q1'']"
      and memory = "[]" and ctl = "Some 0" and chatId = "Some ''A''" and input = "''q1''"
      and s = two_chats]
  from h1 h2 h3 h4 h5 t e1 e2 e3 e4 show ?thesis by (intro conjI) (elim conjE, assumption)+
qed

subsection \<open>Import\<close>

lemma parse_empty_messages: "JSON_parse empty_messages_file = Some (JObj [(''messages'', JArr [])])"
  by code_simp

text \<open>
  C8, as stated, fails: the message list need not be non-empty. The payload
  \<open>{"messages": []}\<close> is accepted and creates a conversation without messages.
\<close>

theorem import_accepts_empty_message_list:
  "chats (handleImportChat JSON_parse (Some empty_messages_file) (initial_manager []))
     = [\<lparr>id_chat = ''id0'', title = [], messages = [], createdAt = 1000, updatedAt = 1001,
         pinned = False, archived = False\<rparr>]"
proof -
  have "nat_to_string 0 = ''0''" by code_simp
  then show ?thesis
    by (simp add: handleImportChat_def parse_empty_messages isArray_def importChat_def
        as_Chat_def string_field_def number_field_def boolean_field_def initial_manager_def
        generateId_def Date_now_def persistChats_def Let_def split_def)
qed

lemma import_accepted:
  assumes "parse payload = Some data" and "get_prop ''messages'' data = Some (JArr ms)"
  shows "handleImportChat parse (Some payload) s =
           s\<lparr>chats := (as_Chat data)\<lparr>id_chat := id_source s (id_calls s),
                          createdAt := clock s (clock_calls s),
                          updatedAt := clock s (Suc (clock_calls s))\<rparr> # chats s,
             stored_chats := (as_Chat data)\<lparr>id_chat := id_source s (id_calls s),
                          createdAt := clock s (clock_calls s),
                          updatedAt := clock s (Suc (clock_calls s))\<rparr> # chats s,
             id_calls := Suc (id_calls s),
             clock_calls := Suc (Suc (clock_calls s))\<rparr>"
  using assms member_get_prop [OF assms(2)]
  by (simp add: handleImportChat_def isArray_def importChat_def generateId_def Date_now_def
      persistChats_def Let_def split_def)

text \<open>
  C8, amended. Import accepts a payload only after checking that it has a message list, a
  \<open>messages\<close> field that is an array, which may be empty; a text that does not parse, a
  payload without a \<open>messages\<close> field or with one that is no array creates no conversation,
  the payload \<open>{}\<close> leaves the whole state unchanged, and so does choosing no file. An
  accepted conversation is put in front of the chats, in the state and in the store, with a
  fresh identifier and fresh time stamps, never the imported ones: its identifier is the
  value that \<open>generateId\<close> returns at the import and its time stamps are the two readings of
  the clock that follow. So the identifiers and time stamps of the chats after the import
  are the same whatever accepted payload was imported; when the generated identifier is not
  the imported one and is the identifier of no chat, the new conversation's identifier is
  not the imported one and is the identifier of no other chat, also when the imported
  identifier collides with a chat's; and importing a payload twice gives two conversations
  with the generator's two successive values, not twice the imported identifier.
\<close>

theorem import_accepts_arrays_with_fresh_identifier:
  "(parse payload = Some data \<and> get_prop ''messages'' data = Some (JArr ms) \<longrightarrow>
      chats (handleImportChat parse (Some payload) s)
        = (as_Chat data)\<lparr>id_chat := id_source s (id_calls s),
                          createdAt := clock s (clock_calls s),
                          updatedAt := clock s (Suc (clock_calls s))\<rparr> # chats s
      \<and> stored_chats (handleImportChat parse (Some payload) s)
          = chats (handleImportChat parse (Some payload) s))
   \<and> (parse payload = None \<or> (\<exists>data. parse payload = Some data \<and> \<not> isArray (get_prop ''messages'' data))
       \<longrightarrow> chats (handleImportChat parse (Some payload) s) = chats s
          \<and> stored_chats (handleImportChat parse (Some payload) s) = stored_chats s)
   \<and> handleImportChat JSON_parse (Some ''{}'') s = s
   \<and> handleImportChat parse None s = s
   \<and> (parse payload = Some data \<and> get_prop ''messages'' data = Some (JArr ms)
       \<and> fst (generateId s) \<noteq> id_chat (as_Chat data)
       \<and> fst (generateId s) \<notin> set (map id_chat (chats s)) \<longrightarrow>
         (\<exists>new. chats (handleImportChat parse (Some payload) s) = new # chats s
            \<and> id_chat new \<noteq> id_chat (as_Chat data)
            \<and> id_chat new \<notin> set (map id_chat (chats s))
            \<and> createdAt new = fst (Date_now s)
            \<and> updatedAt new = fst (Date_now (snd (Date_now s)))
            \<and> title new = title (as_Chat data) \<and> messages new = messages (as_Chat data)
            \<and> pinned new = pinned (as_Chat data) \<and> archived new = archived (as_Chat data)))
   \<and> (parse payload = Some data \<and> get_prop ''messages'' data = Some (JArr ms)
       \<and> parse payload' = Some data' \<and> get_prop ''messages'' data' = Some (JArr ms') \<longrightarrow>
         map (\<lambda>c. (id_chat c, createdAt c, updatedAt c)) (chats (handleImportChat parse (Some payload) s))
           = map (\<lambda>c. (id_chat c, createdAt c, updatedAt c))
               (chats (handleImportChat parse (Some payload') s)))
   \<and> (parse payload = Some data \<and> get_prop ''messages'' data = Some (JArr ms) \<longrightarrow>
         map id_chat (chats (handleImportChat parse (Some payload)
                               (handleImportChat parse (Some payload) s)))
           = id_source s (Suc (id_calls s)) # id_source s (id_calls s) # map id_chat (chats s))"
proof (intro conjI impI)
  assume a: "parse payload = Some data \<and> get_prop ''messages'' data = Some (JArr ms)"
  then have m: "member (Some data) (get_prop ''messages'') = Inr (Some (JArr ms))"
    by (simp add: member_get_prop)
  show "chats (handleImportChat parse (Some payload) s)
        = (as_Chat data)\<lparr>id_chat := id_source s (id_calls s),
                          createdAt := clock s (clock_calls s),
                          updatedAt := clock s (Suc (clock_calls s))\<rparr> # chats s"
    using a m
    by (simp add: handleImportChat_def isArray_def importChat_def generateId_def Date_now_def
        persistChats_def Let_def split_def)
  show "stored_chats (handleImportChat parse (Some payload) s)
          = chats (handleImportChat parse (Some payload) s)"
    using a m
    by (simp add: handleImportChat_def isArray_def importChat_def generateId_def Date_now_def
        persistChats_def Let_def split_def)
next
  assume r: "parse payload = None
     \<or> (\<exists>data. parse payload = Some data \<and> \<not> isArray (get_prop ''messages'' data))"
  have "chats (handleImportChat parse (Some payload) s) = chats s
          \<and> stored_chats (handleImportChat parse (Some payload) s) = stored_chats s"
  proof (cases "parse payload")
    case None
    then show ?thesis by (simp add: handleImportChat_def)
  next
    case (Some data)
    then have n: "\<not> isArray (get_prop ''messages'' data)" using r by simp
    show ?thesis
    proof (cases "member (Some data) (get_prop ''messages'')")
      case (Inl e)
      then show ?thesis using Some by (simp add: handleImportChat_def)
    next
      case (Inr m)
      then have "m = get_prop ''messages'' data" by (cases data) auto
      then show ?thesis using Some Inr n by (simp add: handleImportChat_def)
    qed
  qed
  then show "chats (handleImportChat parse (Some payload) s) = chats s"
    and "stored_chats (handleImportChat parse (Some payload) s) = stored_chats s"
    by simp_all
next
  show "handleImportChat JSON_parse (Some ''{}'') s = s"
    by (simp add: handleImportChat_def parse_empty_object isArray_def)
next
  show "handleImportChat parse None s = s"
    by (simp add: handleImportChat_def)
next
  assume f: "parse payload = Some data \<and> get_prop ''messages'' data = Some (JArr ms)
       \<and> fst (generateId s) \<noteq> id_chat (as_Chat data)
       \<and> fst (generateId s) \<notin> set (map id_chat (chats s))"
  then have acc: "parse payload = Some data" "get_prop ''messages'' data = Some (JArr ms)"
    by simp_all
  show "\<exists>new. chats (handleImportChat parse (Some payload) s) = new # chats s
            \<and> id_chat new \<noteq> id_chat (as_Chat data)
            \<and> id_chat new \<notin> set (map id_chat (chats s))
            \<and> createdAt new = fst (Date_now s)
            \<and> updatedAt new = fst (Date_now (snd (Date_now s)))
            \<and> title new = title (as_Chat data) \<and> messages new = messages (as_Chat data)
            \<and> pinned new = pinned (as_Chat data) \<and> archived new = archived (as_Chat data)"
    using f by (simp add: import_accepted [of parse payload data ms, OF acc] generateId_def Date_now_def)
next
  assume i: "parse payload = Some data \<and> get_prop ''messages'' data = Some (JArr ms)
       \<and> parse payload' = Some data' \<and> get_prop ''messages'' data' = Some (JArr ms')"
  then have acc: "parse payload = Some data" "get_prop ''messages'' data = Some (JArr ms)"
    and acc': "parse payload' = Some data'" "get_prop ''messages'' data' = Some (JArr ms')"
    by simp_all
  show "map (\<lambda>c. (id_chat c, createdAt c, updatedAt c)) (chats (handleImportChat parse (Some payload) s))
           = map (\<lambda>c. (id_chat c, createdAt c, updatedAt c))
               (chats (handleImportChat parse (Some payload') s))"
    by (simp add: import_accepted [of parse payload data ms, OF acc] import_accepted [of parse payload' data' ms', OF acc'])
next
  assume a: "parse payload = Some data \<and> get_prop ''messages'' data = Some (JArr ms)"
  then have acc: "parse payload = Some data" "get_prop ''messages'' data = Some (JArr ms)"
    by simp_all
  show "map id_chat (chats (handleImportChat parse (Some payload)
                               (handleImportChat parse (Some payload) s)))
           = id_source s (Suc (id_calls s)) # id_source s (id_calls s) # map id_chat (chats s)"
    by (simp add: import_accepted [of parse payload data ms, OF acc])
qed

theorem import_accepts_arrays_with_fresh_identifier_witness:
  \<open>JSON_parse exported_file = Some exported_data
   \<and> get_prop ''messages'' exported_data
       = Some (JArr [JObj [(''id'', JStr ''m1''), (''role'', JStr ''user''),
                           (''content'', JStr ''hi''), (''timestamp'', JNum 5)]])
   \<and> chats (handleImportChat JSON_parse (Some exported_file) one_stored_chat)
       = (as_Chat exported_data)\<lparr>id_chat := id_source one_stored_chat (id_calls one_stored_chat),
            createdAt := clock one_stored_chat (clock_calls one_stored_chat),
            updatedAt := clock one_stored_chat (Suc (clock_calls one_stored_chat))\<rparr>
           # chats one_stored_chat
   \<and> stored_chats (handleImportChat JSON_parse (Some exported_file) one_stored_chat)
       = chats (handleImportChat JSON_parse (Some exported_file) one_stored_chat)
   \<and> chats (handleImportChat JSON_parse (Some exported_file) one_stored_chat)
       = [\<lparr>id_chat = ''id0'', title = ''T'',
           messages = [\<lparr>id_msg = ''m1'', role = User, content = ''hi'', timestamp = 5\<rparr>],
           createdAt = 1000, updatedAt = 1001, pinned = False, archived = False\<rparr>,
          example_chat ''old'' []]
   \<and> JSON_parse ''{"messages": "none"}'' = Some (JObj [(''messages'', JStr ''none'')])
   \<and> \<not> isArray (get_prop ''messages'' (JObj [(''messages'', JStr ''none'')]))
   \<and> chats (handleImportChat JSON_parse (Some ''{"messages": "none"}'') one_stored_chat)
       = chats one_stored_chat
   \<and> stored_chats (handleImportChat JSON_parse (Some ''{"messages": "none"}'') one_stored_chat)
       = stored_chats one_stored_chat
   \<and> fst (generateId one_stored_chat) = ''id0''
   \<and> id_chat (as_Chat exported_data) = ''old''
   \<and> map id_chat (chats one_stored_chat) = [''old'']
   \<and> (\<exists>new. chats (handleImportChat JSON_parse (Some exported_file) one_stored_chat)
                = new # chats one_stored_chat
          \<and> id_chat new \<noteq> id_chat (as_Chat exported_data)
          \<and> id_chat new \<notin> set (map id_chat (chats one_stored_chat))
          \<and> createdAt new = fst (Date_now one_stored_chat)
          \<and> updatedAt new = fst (Date_now (snd (Date_now one_stored_chat)))
          \<and> title new = title (as_Chat exported_data)
          \<and> messages new = messages (as_Chat exported_data)
          \<and> pinned new = pinned (as_Chat exported_data)
          \<and> archived new = archived (as_Chat exported_data))
   \<and> JSON_parse empty_messages_file = Some (JObj [(''messages'', JArr [])])
   \<and> map (\<lambda>c. (id_chat c, createdAt c, updatedAt c))
         (chats (handleImportChat JSON_parse (Some exported_file) one_stored_chat))
       = map (\<lambda>c. (id_chat c, createdAt c, updatedAt c))
           (chats (handleImportChat JSON_parse (Some empty_messages_file) one_stored_chat))
   \<and> map id_chat (chats (handleImportChat JSON_parse (Some exported_file)
                            (handleImportChat JSON_parse (Some exported_file) one_stored_chat)))
       = [''id1'', ''id0'', ''old'']\<close>
proof -
  have p: "JSON_parse exported_file = Some exported_data" by code_simp
  have m: "get_prop ''messages'' exported_data
       = Some (JArr [JObj [(''id'', JStr ''m1''), (''role'', JStr ''user''),
                           (''content'', JStr ''hi''), (''timestamp'', JNum 5)]])"
    by (simp add: exported_data_def)
  note t = import_accepts_arrays_with_fresh_identifier [where parse = JSON_parse and payload = exported_file
      and data = exported_data and s = one_stored_chat
      and ms = "[JObj [(''id'', JStr ''m1''), (''role'', JStr ''user''),
                           (''content'', JStr ''hi''), (''timestamp'', JNum 5)]]"]
  have pre: "JSON_parse exported_file = Some exported_data
      \<and> get_prop ''messages'' exported_data
          = Some (JArr [JObj [(''id'', JStr ''m1''), (''role'', JStr ''user''),
                           (''content'', JStr ''hi''), (''timestamp'', JNum 5)]])"
    using p m by (intro conjI)
  note a = t [THEN conjunct1, THEN mp, OF pre]
  have n0: "nat_to_string 0 = ''0''" by code_simp
  have v: "(as_Chat exported_data)\<lparr>id_chat := id_source one_stored_chat (id_calls one_stored_chat),
            createdAt := clock one_stored_chat (clock_calls one_stored_chat),
            updatedAt := clock one_stored_chat (Suc (clock_calls one_stored_chat))\<rparr>
           # chats one_stored_chat
       = [\<lparr>id_chat = ''id0'', title = ''T'',
           messages = [\<lparr>id_msg = ''m1'', role = User, content = ''hi'', timestamp = 5\<rparr>],
           createdAt = 1000, updatedAt = 1001, pinned = False, archived = False\<rparr>,
          example_chat ''old'' []]"
    by (simp add: as_Chat_def as_Message_def exported_data_def string_field_def number_field_def
        boolean_field_def one_stored_chat_def initial_manager_def n0)
  have v': "chats (handleImportChat JSON_parse (Some exported_file) one_stored_chat)
       = [\<lparr>id_chat = ''id0'', title = ''T'',
           messages = [\<lparr>id_msg = ''m1'', role = User, content = ''hi'', timestamp = 5\<rparr>],
           createdAt = 1000, updatedAt = 1001, pinned = False, archived = False\<rparr>,
          example_chat ''old'' []]"
    using a v by simp
  have q: \<open>JSON_parse ''{"messages": "none"}'' = Some (JObj [(''messages'', JStr ''none'')])\<close>
    by code_simp
  have na: "\<not> isArray (get_prop ''messages'' (JObj [(''messages'', JStr ''none'')]))"
    by (simp add: isArray_def)
  note t2 = import_accepts_arrays_with_fresh_identifier [where parse = JSON_parse
      and payload = \<open>''{"messages": "none"}''\<close> and s = one_stored_chat]
  have rej: \<open>JSON_parse ''{"messages": "none"}'' = None
     \<or> (\<exists>data. JSON_parse ''{"messages": "none"}'' = Some data
            \<and> \<not> isArray (get_prop ''messages'' data))\<close>
    using q na by simp
  note b = t2 [THEN conjunct2, THEN conjunct1, THEN mp, OF rej]
  have g0: "fst (generateId one_stored_chat) = ''id0''"
    by (simp add: generateId_def one_stored_chat_def initial_manager_def n0)
  have io: "id_chat (as_Chat exported_data) = ''old''"
    by (simp add: as_Chat_def exported_data_def string_field_def)
  have so: "map id_chat (chats one_stored_chat) = [''old'']"
    by (simp add: one_stored_chat_def initial_manager_def example_chat_def)
  have pre5: "JSON_parse exported_file = Some exported_data
      \<and> get_prop ''messages'' exported_data
          = Some (JArr [JObj [(''id'', JStr ''m1''), (''role'', JStr ''user''),
                           (''content'', JStr ''hi''), (''timestamp'', JNum 5)]])
      \<and> fst (generateId one_stored_chat) \<noteq> id_chat (as_Chat exported_data)
      \<and> fst (generateId one_stored_chat) \<notin> set (map id_chat (chats one_stored_chat))"
    using p m by (simp add: g0 io so)
  note c = t [THEN conjunct2, THEN conjunct2, THEN conjunct2, THEN conjunct2, THEN conjunct1,
      THEN mp, OF pre5]
  note t3 = import_accepts_arrays_with_fresh_identifier [where parse = JSON_parse
      and payload = exported_file and data = exported_data and s = one_stored_chat
      and ms = "[JObj [(''id'', JStr ''m1''), (''role'', JStr ''user''),
                           (''content'', JStr ''hi''), (''timestamp'', JNum 5)]]"
      and payload' = empty_messages_file and data' = "JObj [(''messages'', JArr [])]"
      and ms' = "[]"]
  have e: "JSON_parse empty_messages_file = Some (JObj [(''messages'', JArr [])])"
    by (rule parse_empty_messages)
  have pre6: "JSON_parse exported_file = Some exported_data
      \<and> get_prop ''messages'' exported_data
          = Some (JArr [JObj [(''id'', JStr ''m1''), (''role'', JStr ''user''),
                           (''content'', JStr ''hi''), (''timestamp'', JNum 5)]])
      \<and> JSON_parse empty_messages_file = Some (JObj [(''messages'', JArr [])])
      \<and> get_prop ''messages'' (JObj [(''messages'', JArr [])]) = Some (JArr [])"
    using p m e by simp
  note d = t3 [THEN conjunct2, THEN conjunct2, THEN conjunct2, THEN conjunct2, THEN conjunct2,
      THEN conjunct1, THEN mp, OF pre6]
  have n1: "nat_to_string (Suc 0) = ''1''" by code_simp
  have ids: "id_source one_stored_chat (Suc (id_calls one_stored_chat))
               # id_source one_stored_chat (id_calls one_stored_chat)
               # map id_chat (chats one_stored_chat) = [''id1'', ''id0'', ''old'']"
    by (simp add: one_stored_chat_def initial_manager_def example_chat_def n0 n1)
  have f: "map id_chat (chats (handleImportChat JSON_parse (Some exported_file)
                            (handleImportChat JSON_parse (Some exported_file) one_stored_chat)))
       = [''id1'', ''id0'', ''old'']"
    using t [THEN conjunct2, THEN conjunct2, THEN conjunct2, THEN conjunct2, THEN conjunct2,
      THEN conjunct2, THEN mp, OF pre] ids by simp
  from p m a v' q na b g0 io so c e d f show ?thesis by (intro conjI) (elim conjE, assumption)+
qed

end
